theory Spec2Isabelle
  imports Main "HOL-Library.Word" "HOL-Library.Signed_Division"
begin

unbundle bit_operations_syntax

section \<open>Envelope encryption rule executor (schemaregistry/rules/encryption)\<close>

text \<open>
  A shallow embedding of \<^verbatim>\<open>encrypt_executor.go\<close>. Go's \<^verbatim>\<open>int\<close> and \<^verbatim>\<open>int64\<close> are
  64-bit two's-complement words (the 64-bit targets the client is built for), a byte
  slice is modelled by the list of its elements (so its capacity is its length), as an
  option where the file tests a slice for nil or returns it to its caller (\<open>None\<close> is
  the nil slice), and a Go \<^verbatim>\<open>string\<close> is an Isabelle \<open>string\<close> (a list of 8-bit
  characters).
  Every call to a collaborator that is not part of the file (the registry client, the
  clock, the KMS driver registry, Tink, base64) goes through a record of functions,
  and each such call is appended to a trace, so that statements about which calls are
  made can be expressed.
\<close>

subsection \<open>Values, errors and outcomes\<close>

type_synonym byte = "8 word"
type_synonym go_int = "64 word"
type_synonym int64 = "64 word"

text \<open>\<^verbatim>\<open>schemaregistry.RuleMode\<close>: only \<^verbatim>\<open>Write\<close> and \<^verbatim>\<open>Read\<close> are named by the file;
  every other mode (upgrade, downgrade, ...) is \<open>OtherMode\<close>.\<close>

datatype RuleMode = Write | Read | OtherMode nat

text \<open>\<^verbatim>\<open>serde.FieldType\<close>: only \<^verbatim>\<open>TypeBytes\<close> and \<^verbatim>\<open>TypeString\<close> are named by the file.\<close>

datatype FieldType = TypeBytes | TypeString | OtherType nat

text \<open>
  A field value is an \<^verbatim>\<open>interface{}\<close>: the nil interface, a \<^verbatim>\<open>[]byte\<close> (which may itself
  be the nil slice, \<open>None\<close>), a \<^verbatim>\<open>string\<close>, or a value of any other dynamic type.
\<close>

datatype FieldValue =
    NilValue
  | BytesValue "byte list option"
  | StringValue string
  | OtherValue nat

text \<open>Run-time panics of Go that the file can raise.\<close>

datatype panic =
    IndexOutOfRange
  | SliceBoundsOutOfRange
  | NilPointerDereference
  | TypeAssertionFailed

text \<open>
  Errors. \<open>RestError code\<close> is a \<^verbatim>\<open>*rest.Error\<close> with that \<^verbatim>\<open>Code\<close>; \<open>ExternalError\<close> is
  any other error value handed back by a collaborator. The remaining constructors are
  the errors the file itself creates, one per message, in the order of the source:
  \<^item> \<open>NoKekFoundConsume\<close>: "no kek found for %s during consume"
  \<^item> \<open>NoKmsTypeFound\<close>: "no kms type found for %s during produce"
  \<^item> \<open>NoKmsKeyIDFound\<close>: "no kms key id found for %s during produce"
  \<^item> \<open>NoKekFoundProduce\<close>: "no kek found for %s during produce"
  \<^item> \<open>KmsTypeDiffers\<close>: "found %s with kms type %s which differs from rule kms type %s"
  \<^item> \<open>KmsKeyIDDiffers\<close>: "found %s with kms key id %s which differs from rule kms key id %s"
  \<^item> \<open>NoDekFoundConsume\<close>: "no dek found for %s during consumer"
  \<^item> \<open>NoDekFoundProduce\<close>: "no dek found for %s during produce"
  \<^item> \<open>TypeNotSupported\<close>: "type '%v' not supported for encryption"
  \<^item> \<open>UnsupportedRuleMode\<close>: "unsupported rule mode %v"
  \<^item> \<open>UnknownMagicByte\<close>: "unknown magic byte"
\<close>

datatype error =
    RestError int
  | ExternalError string
  | NoKekFoundConsume string
  | NoKmsTypeFound string
  | NoKmsKeyIDFound string
  | NoKekFoundProduce string
  | KmsTypeDiffers string string string
  | KmsKeyIDDiffers string string string
  | NoDekFoundConsume string
  | NoDekFoundProduce string
  | TypeNotSupported FieldType
  | UnsupportedRuleMode RuleMode
  | UnknownMagicByte

text \<open>What a call of a function of the file ends with: a result, an error, or a panic.\<close>

datatype 'a outcome = Return 'a | Error error | Panic panic

subsection \<open>Constants\<close>

definition EncryptKekName :: string where "EncryptKekName = ''encrypt.kek.name''"
definition EncryptKmsKeyID :: string where "EncryptKmsKeyID = ''encrypt.kms.key.id''"
definition EncryptKmsType :: string where "EncryptKmsType = ''encrypt.kms.type''"
definition EncryptDekAlgorithm :: string where "EncryptDekAlgorithm = ''encrypt.dek.algorithm''"
definition EncryptDekExpiryDays :: string where "EncryptDekExpiryDays = ''encrypt.dek.expiry.days''"

definition Aes128Gcm :: string where "Aes128Gcm = ''AES128_GCM''"
definition Aes256Gcm :: string where "Aes256Gcm = ''AES256_GCM''"
definition Aes256Siv :: string where "Aes256Siv = ''AES256_SIV''"

definition MillisInDay :: int64 where "MillisInDay = 24 * 60 * 60 * 1000"

subsection \<open>Go library functions used by the file\<close>

text \<open>\<^verbatim>\<open>strconv.Itoa\<close>: the decimal digits, with a minus sign for a negative number.\<close>

fun digits :: "nat \<Rightarrow> string" where
  "digits n =
     (if n < 10 then [char_of (48 + n)]
      else digits (n div 10) @ [char_of (48 + n mod 10)])"

declare digits.simps [simp del]

definition Itoa :: "int \<Rightarrow> string" where
  "Itoa i = (if i < 0 then CHR ''-'' # digits (nat (- i)) else digits (nat i))"

text \<open>\<^verbatim>\<open>strings.HasPrefix\<close>.\<close>

definition HasPrefix :: "string \<Rightarrow> string \<Rightarrow> bool" where
  "HasPrefix s p = (take (length p) s = p)"

text \<open>Signed 64-bit division truncates towards zero (and wraps at the one overflow).\<close>

definition div64 :: "int64 \<Rightarrow> int64 \<Rightarrow> int64" where
  "div64 a b = word_of_int (sint a sdiv sint b)"

text \<open>\<^verbatim>\<open>binary.BigEndian.PutUint32\<close> into a fresh 4-byte slice, and \<^verbatim>\<open>binary.BigEndian.Uint32\<close>,
  which panics on a slice of fewer than four bytes.\<close>

definition PutUint32 :: "32 word \<Rightarrow> byte list" where
  "PutUint32 v =
     [ucast (drop_bit 24 v), ucast (drop_bit 16 v), ucast (drop_bit 8 v), ucast v]"

fun Uint32 :: "byte list \<Rightarrow> 32 word outcome" where
  "Uint32 (b0 # b1 # b2 # b3 # _) =
     Return (ucast b3 OR push_bit 8 (ucast b2) OR push_bit 16 (ucast b1)
             OR push_bit 24 (ucast b0))"
| "Uint32 _ = Panic IndexOutOfRange"

text \<open>\<^verbatim>\<open>[]byte(s)\<close> and \<^verbatim>\<open>string(b)\<close>: a Go string is its bytes.\<close>

definition bytes_of_string :: "string \<Rightarrow> byte list" where
  "bytes_of_string s = map (\<lambda>c. of_nat (of_char c)) s"

definition string_of_bytes :: "byte list \<Rightarrow> string" where
  "string_of_bytes b = map (\<lambda>x. char_of (unat x)) b"

subsection \<open>Ciphertext framing\<close>

text \<open>
  \<^verbatim>\<open>prefixVersion\<close>. The writes to a \<^verbatim>\<open>bytes.Buffer\<close> never return an error, so the
  error returns of the source are unreachable. \<open>magic\<close> is \<^verbatim>\<open>serde.MagicByteV0\<close>, a
  constant declared outside the file.
\<close>

definition prefixVersion :: "byte \<Rightarrow> go_int \<Rightarrow> byte list \<Rightarrow> byte list outcome" where
  "prefixVersion magic version ciphertext =
     Return ([magic] @ PutUint32 (ucast version) @ ciphertext)"

text \<open>
  \<^verbatim>\<open>extractVersion\<close>. \<^verbatim>\<open>ciphertext[0]\<close> panics on the empty slice, and
  \<^verbatim>\<open>ciphertext[1:5]\<close> panics when the slice holds fewer than five bytes.
\<close>

definition extractVersion :: "byte \<Rightarrow> byte list \<Rightarrow> go_int outcome" where
  "extractVersion magic ciphertext =
     (case ciphertext of
        [] \<Rightarrow> Panic IndexOutOfRange
      | b # _ \<Rightarrow>
          if b \<noteq> magic then Error UnknownMagicByte
          else if length ciphertext < 5 then Panic SliceBoundsOutOfRange
          else (case Uint32 (take 4 (drop 1 ciphertext)) of
                  Return version \<Rightarrow> Return (ucast version)
                | Error e \<Rightarrow> Error e
                | Panic p \<Rightarrow> Panic p))"

subsection \<open>Data model\<close>

text \<open>
  Modelled from the spec: the declarations of \<^verbatim>\<open>deks.Kek\<close>, \<^verbatim>\<open>deks.Dek\<close>, \<^verbatim>\<open>deks.KekID\<close> and
  \<^verbatim>\<open>deks.DekID\<close> are outside the file; the records hold the fields the spec's data model
  lists, under the names the file uses for them.
\<close>

record KekID =
  Name :: string
  Deleted :: bool

record Kek =
  Name :: string
  KmsType :: string
  KmsKeyID :: string
  KmsProps :: "(string \<times> string) list"
  Shared :: bool

record DekID =
  KekName :: string
  Subject :: string
  Version :: go_int
  Algorithm :: string
  Deleted :: bool

record Dek =
  Version :: go_int
  Ts :: int64
  EncryptedKeyMaterial :: string
  KeyMaterialBytes :: "byte list option"

text \<open>\<^verbatim>\<open>tinkpb.KeyTemplate\<close>, of which the file reads \<^verbatim>\<open>TypeUrl\<close>.\<close>

record KeyTemplate =
  TypeUrl :: string
  TemplateValue :: "byte list"

record Cryptor =
  DekFormat :: string
  KeyTemplate :: "KeyTemplate option"

text \<open>\<^verbatim>\<open>serde.RuleContext\<close>: the rule mode, the subject, and the rule parameters that
  \<^verbatim>\<open>ctx.GetParameter\<close> looks up (\<open>None\<close> is the nil \<^verbatim>\<open>*string\<close>).\<close>

record RuleContext =
  RuleMode :: RuleMode
  Subject :: string
  GetParameter :: "string \<Rightarrow> string option"

text \<open>\<^verbatim>\<open>ExecutorTransform\<close>; of its \<^verbatim>\<open>Executor\<close> the configuration map is kept here, the
  client and the clock are collaborators.\<close>

record ExecutorTransform =
  Config :: "string \<Rightarrow> string option"
  Cryptor :: Cryptor
  KekName :: string
  Kek :: Kek
  DekExpiryDays :: go_int

subsection \<open>Collaborators and the trace of calls\<close>

text \<open>What \<^verbatim>\<open>registry.Primitive\<close> returns: a value that is asserted to be a \<^verbatim>\<open>tink.AEAD\<close> or a
  \<^verbatim>\<open>tink.DeterministicAEAD\<close>.\<close>

datatype 'a primitive = AEAD 'a | DeterministicAEAD 'a

text \<open>One event per call that leaves the file.\<close>

datatype event =
    EvNowUnixMilli
  | EvGetKek string bool
  | EvRegisterKek string string string bool
  | EvGetDek string string string bool
  | EvGetDekVersion string string go_int string bool
  | EvRegisterDek string string string string
  | EvRegisterDekVersion string string go_int string string
  | EvGetDekKeyMaterialBytes
  | EvGetDekEncryptedKeyMaterialBytes
  | EvSetDekKeyMaterial
  | EvGetKMSDriver string
  | EvGetKMSClient string
  | EvNewKMSClient string
  | EvRegisterKMSClient
  | EvGetAEAD string
  | EvKmsEncrypt
  | EvKmsDecrypt
  | EvNewKeyData
  | EvPrimitive
  | EvEncrypt
  | EvDecrypt
  | EvEncryptDeterministically
  | EvDecryptDeterministically
  | EvLogWarn

fun is_register :: "event \<Rightarrow> bool" where
  "is_register (EvRegisterKek _ _ _ _) = True"
| "is_register (EvRegisterDek _ _ _ _) = True"
| "is_register (EvRegisterDekVersion _ _ _ _ _) = True"
| "is_register _ = False"

fun is_kms :: "event \<Rightarrow> bool" where
  "is_kms (EvGetKMSDriver _) = True"
| "is_kms (EvGetKMSClient _) = True"
| "is_kms (EvNewKMSClient _) = True"
| "is_kms EvRegisterKMSClient = True"
| "is_kms (EvGetAEAD _) = True"
| "is_kms EvKmsEncrypt = True"
| "is_kms EvKmsDecrypt = True"
| "is_kms _ = False"

text \<open>
  The collaborators, over a world \<open>'w\<close> that holds whatever they depend on and change
  (the registry's contents, the time, the KMS client table, randomness). \<open>'d\<close> is a KMS
  driver, \<open>'c\<close> a KMS client, \<open>'a\<close> a Tink primitive. A Go pair \<^verbatim>\<open>(value, err)\<close> of a
  collaborator is \<open>Inl err\<close> or \<open>Inr value\<close>.
  \<^item> \<open>MagicByteV0\<close>: the constant \<^verbatim>\<open>serde.MagicByteV0\<close>;
  \<^item> \<open>NowUnixMilli\<close>: the \<^verbatim>\<open>Clock\<close>;
  \<^item> \<open>GetKek\<close> ... \<open>SetDekKeyMaterial\<close>: the methods of \<^verbatim>\<open>deks.Client\<close> the file calls
    (the accessors read, and \<open>SetDekKeyMaterial\<close> returns, the DEK they are given);
  \<^item> \<open>GetKMSDriver\<close>, \<open>GetKMSClient\<close>, \<open>NewKMSClient\<close>, \<open>RegisterKMSClient\<close>, \<open>GetAEAD\<close>: the
    KMS driver registry, Tink's KMS client table, and the driver and client methods;
  \<open>KmsEncrypt\<close> and \<open>KmsDecrypt\<close> are \<^verbatim>\<open>Encrypt\<close> and \<^verbatim>\<open>Decrypt\<close> of the primitive of a KEK;
  \<^item> \<open>AES128GCMKeyTemplate\<close>, \<open>AES256GCMKeyTemplate\<close>, \<open>AESSIVKeyTemplate\<close>, \<open>NewKeyData\<close>
    (with \<^verbatim>\<open>GetValue\<close>), \<open>Primitive\<close>, \<open>Encrypt\<close>, \<open>Decrypt\<close>, \<open>EncryptDeterministically\<close>,
    \<open>DecryptDeterministically\<close>: Tink;
  \<^item> \<open>EncodeToString\<close>, \<open>DecodeString\<close>: \<^verbatim>\<open>base64.StdEncoding\<close>.
  The functions that compute from their arguments alone (building a primitive from key
  bytes, decrypting, deterministic encryption, base64) take no world; randomised
  \<open>Encrypt\<close> takes one. The plaintext slice that \<open>Decrypt\<close> and
  \<open>DecryptDeterministically\<close> return may be the nil slice (\<open>None\<close>), and it is what
  \<^verbatim>\<open>toObject\<close> hands back for a bytes field.
\<close>

record ('w, 'd, 'c, 'a) env =
  MagicByteV0 :: byte
  NowUnixMilli :: "'w \<Rightarrow> int64 \<times> 'w"
  GetKek :: "string \<Rightarrow> bool \<Rightarrow> 'w \<Rightarrow> (error + Kek) \<times> 'w"
  RegisterKek :: "string \<Rightarrow> string \<Rightarrow> string \<Rightarrow> bool \<Rightarrow> 'w \<Rightarrow> (error + Kek) \<times> 'w"
  GetDek :: "string \<Rightarrow> string \<Rightarrow> string \<Rightarrow> bool \<Rightarrow> 'w \<Rightarrow> (error + Dek) \<times> 'w"
  GetDekVersion ::
    "string \<Rightarrow> string \<Rightarrow> go_int \<Rightarrow> string \<Rightarrow> bool \<Rightarrow> 'w \<Rightarrow> (error + Dek) \<times> 'w"
  RegisterDek :: "string \<Rightarrow> string \<Rightarrow> string \<Rightarrow> string \<Rightarrow> 'w \<Rightarrow> (error + Dek) \<times> 'w"
  RegisterDekVersion ::
    "string \<Rightarrow> string \<Rightarrow> go_int \<Rightarrow> string \<Rightarrow> string \<Rightarrow> 'w \<Rightarrow> (error + Dek) \<times> 'w"
  GetDekKeyMaterialBytes :: "Dek \<Rightarrow> 'w \<Rightarrow> (error + byte list option) \<times> 'w"
  GetDekEncryptedKeyMaterialBytes :: "Dek \<Rightarrow> 'w \<Rightarrow> (error + byte list) \<times> 'w"
  SetDekKeyMaterial :: "Dek \<Rightarrow> byte list \<Rightarrow> 'w \<Rightarrow> Dek \<times> 'w"
  GetKMSDriver :: "string \<Rightarrow> 'w \<Rightarrow> (error + 'd) \<times> 'w"
  GetKMSClient :: "string \<Rightarrow> 'w \<Rightarrow> (error + 'c) \<times> 'w"
  NewKMSClient :: "'d \<Rightarrow> (string \<Rightarrow> string option) \<Rightarrow> string \<Rightarrow> 'w \<Rightarrow> (error + 'c) \<times> 'w"
  RegisterKMSClient :: "'c \<Rightarrow> 'w \<Rightarrow> unit \<times> 'w"
  GetAEAD :: "'c \<Rightarrow> string \<Rightarrow> 'w \<Rightarrow> (error + 'a) \<times> 'w"
  KmsEncrypt :: "'a \<Rightarrow> byte list \<Rightarrow> byte list \<Rightarrow> 'w \<Rightarrow> (error + byte list) \<times> 'w"
  KmsDecrypt :: "'a \<Rightarrow> byte list \<Rightarrow> byte list \<Rightarrow> 'w \<Rightarrow> (error + byte list) \<times> 'w"
  AES128GCMKeyTemplate :: KeyTemplate
  AES256GCMKeyTemplate :: KeyTemplate
  AESSIVKeyTemplate :: KeyTemplate
  NewKeyData :: "KeyTemplate option \<Rightarrow> 'w \<Rightarrow> (error + byte list) \<times> 'w"
  Primitive :: "string \<Rightarrow> byte list \<Rightarrow> error + 'a primitive"
  Encrypt :: "'a \<Rightarrow> byte list \<Rightarrow> byte list \<Rightarrow> 'w \<Rightarrow> (error + byte list) \<times> 'w"
  Decrypt :: "'a \<Rightarrow> byte list \<Rightarrow> byte list \<Rightarrow> error + byte list option"
  EncryptDeterministically :: "'a \<Rightarrow> byte list \<Rightarrow> byte list \<Rightarrow> error + byte list"
  DecryptDeterministically ::
    "'a \<Rightarrow> byte list \<Rightarrow> byte list \<Rightarrow> error + byte list option"
  EncodeToString :: "byte list \<Rightarrow> string"
  DecodeString :: "string \<Rightarrow> error + byte list"

text \<open>The state of a run: the world and the calls made so far, oldest first.\<close>

type_synonym 'w st = "'w \<times> event list"

definition call :: "event \<Rightarrow> ('w \<Rightarrow> 'r \<times> 'w) \<Rightarrow> 'w st \<Rightarrow> 'r \<times> 'w st" where
  "call ev f s = (case f (fst s) of (r, w') \<Rightarrow> (r, (w', snd s @ [ev])))"

definition call_pure :: "event \<Rightarrow> 'r \<Rightarrow> 'w st \<Rightarrow> 'r \<times> 'w st" where
  "call_pure ev r s = (r, (fst s, snd s @ [ev]))"

text \<open>\<^verbatim>\<open>errors.As(err, &restErr) && strings.HasPrefix(strconv.Itoa(restErr.Code), p)\<close>.\<close>

definition restErrorHasPrefix :: "error \<Rightarrow> string \<Rightarrow> bool" where
  "restErrorHasPrefix err p =
     (case err of RestError code \<Rightarrow> HasPrefix (Itoa code) p | _ \<Rightarrow> False)"

subsection \<open>Cryptographic primitive selection\<close>

text \<open>\<^verbatim>\<open>getCryptor\<close>: the \<^verbatim>\<open>switch\<close> has no default, so any other identifier leaves the
  key template nil.\<close>

definition getCryptor :: "('w, 'd, 'c, 'a) env \<Rightarrow> RuleContext \<Rightarrow> Cryptor" where
  "getCryptor env ctx =
     (let algorithm = (case GetParameter ctx EncryptDekAlgorithm of
                         None \<Rightarrow> Aes256Gcm
                       | Some alg \<Rightarrow> alg);
          keyTemplate =
            (if algorithm = Aes128Gcm then Some (AES128GCMKeyTemplate env)
             else if algorithm = Aes256Gcm then Some (AES256GCMKeyTemplate env)
             else if algorithm = Aes256Siv then Some (AESSIVKeyTemplate env)
             else None)
      in \<lparr>DekFormat = algorithm, KeyTemplate = keyTemplate\<rparr>)"

text \<open>\<^verbatim>\<open>Cryptor.encrypt\<close>: \<^verbatim>\<open>c.KeyTemplate.TypeUrl\<close> reads a field through the template
  pointer, which panics when the pointer is nil; the type assertions panic when the
  primitive is of the other kind.\<close>

definition encrypt ::
  "('w, 'd, 'c, 'a) env \<Rightarrow> Cryptor \<Rightarrow> byte list \<Rightarrow> byte list \<Rightarrow> byte list \<Rightarrow> 'w st
     \<Rightarrow> byte list outcome \<times> 'w st" where
  "encrypt env c dek plaintext associatedData s =
     (case KeyTemplate c of
        None \<Rightarrow> (Panic NilPointerDereference, s)
      | Some t \<Rightarrow>
          (case call_pure EvPrimitive (Primitive env (TypeUrl t) dek) s of
             (Inl err, s1) \<Rightarrow> (Error err, s1)
           | (Inr prim, s1) \<Rightarrow>
               if DekFormat c = Aes256Siv then
                 (case prim of
                    DeterministicAEAD h \<Rightarrow>
                      (case call_pure EvEncryptDeterministically
                              (EncryptDeterministically env h plaintext associatedData) s1 of
                         (Inl err, s2) \<Rightarrow> (Error err, s2)
                       | (Inr ct, s2) \<Rightarrow> (Return ct, s2))
                  | AEAD h \<Rightarrow> (Panic TypeAssertionFailed, s1))
               else
                 (case prim of
                    AEAD h \<Rightarrow>
                      (case call EvEncrypt (Encrypt env h plaintext associatedData) s1 of
                         (Inl err, s2) \<Rightarrow> (Error err, s2)
                       | (Inr ct, s2) \<Rightarrow> (Return ct, s2))
                  | DeterministicAEAD h \<Rightarrow> (Panic TypeAssertionFailed, s1))))"

text \<open>\<^verbatim>\<open>Cryptor.decrypt\<close>; the slice it returns is the one the primitive returned.\<close>

definition decrypt ::
  "('w, 'd, 'c, 'a) env \<Rightarrow> Cryptor \<Rightarrow> byte list \<Rightarrow> byte list \<Rightarrow> byte list \<Rightarrow> 'w st
     \<Rightarrow> byte list option outcome \<times> 'w st" where
  "decrypt env c dek ciphertext associatedData s =
     (case KeyTemplate c of
        None \<Rightarrow> (Panic NilPointerDereference, s)
      | Some t \<Rightarrow>
          (case call_pure EvPrimitive (Primitive env (TypeUrl t) dek) s of
             (Inl err, s1) \<Rightarrow> (Error err, s1)
           | (Inr prim, s1) \<Rightarrow>
               if DekFormat c = Aes256Siv then
                 (case prim of
                    DeterministicAEAD h \<Rightarrow>
                      (case call_pure EvDecryptDeterministically
                              (DecryptDeterministically env h ciphertext associatedData) s1 of
                         (Inl err, s2) \<Rightarrow> (Error err, s2)
                       | (Inr pt, s2) \<Rightarrow> (Return pt, s2))
                  | AEAD h \<Rightarrow> (Panic TypeAssertionFailed, s1))
               else
                 (case prim of
                    AEAD h \<Rightarrow>
                      (case call_pure EvDecrypt (Decrypt env h ciphertext associatedData) s1 of
                         (Inl err, s2) \<Rightarrow> (Error err, s2)
                       | (Inr pt, s2) \<Rightarrow> (Return pt, s2))
                  | DeterministicAEAD h \<Rightarrow> (Panic TypeAssertionFailed, s1))))"

text \<open>\<^verbatim>\<open>toBytes\<close>: \<open>Return None\<close> is the nil slice; a type assertion on a value of another
  dynamic type panics.\<close>

definition toBytes :: "FieldType \<Rightarrow> FieldValue \<Rightarrow> byte list option outcome" where
  "toBytes fieldType obj =
     (case fieldType of
        TypeBytes \<Rightarrow>
          (case obj of BytesValue b \<Rightarrow> Return b | _ \<Rightarrow> Panic TypeAssertionFailed)
      | TypeString \<Rightarrow>
          (case obj of
             StringValue str \<Rightarrow> Return (Some (bytes_of_string str))
           | _ \<Rightarrow> Panic TypeAssertionFailed)
      | OtherType _ \<Rightarrow> Return None)"

text \<open>The bytes of a slice that may be nil.\<close>

definition slice_elems :: "byte list option \<Rightarrow> byte list" where
  "slice_elems b = (case b of None \<Rightarrow> [] | Some xs \<Rightarrow> xs)"

text \<open>\<^verbatim>\<open>toObject\<close>, on the slice a decryption returned: a bytes field gets that very
  slice, nil or not; \<^verbatim>\<open>string(obj)\<close> of the nil slice is the empty string.\<close>

definition toObject :: "FieldType \<Rightarrow> byte list option \<Rightarrow> FieldValue" where
  "toObject fieldType obj =
     (case fieldType of
        TypeBytes \<Rightarrow> BytesValue obj
      | TypeString \<Rightarrow> StringValue (string_of_bytes (slice_elems obj))
      | OtherType _ \<Rightarrow> NilValue)"

definition isDekRotated :: "ExecutorTransform \<Rightarrow> bool" where
  "isDekRotated f = (0 <s DekExpiryDays f)"

subsection \<open>KEK lifecycle\<close>

text \<open>
  The functions below return a Go pair \<^verbatim>\<open>(pointer, err)\<close> as a pair of options: \<open>None\<close>
  in the first place is the nil pointer, \<open>None\<close> in the second the nil error.
\<close>

text \<open>\<^verbatim>\<open>retrieveKekFromRegistry\<close>.\<close>

definition retrieveKekFromRegistry ::
  "('w, 'd, 'c, 'a) env \<Rightarrow> KekID \<Rightarrow> 'w st \<Rightarrow> (Kek option \<times> error option) \<times> 'w st" where
  "retrieveKekFromRegistry env key s =
     (case call (EvGetKek (KekID.Name key) (KekID.Deleted key))
                (GetKek env (KekID.Name key) (KekID.Deleted key)) s of
        (Inl err, s1) \<Rightarrow>
          if restErrorHasPrefix err ''404'' then ((None, None), s1)
          else ((None, Some err), s1)
      | (Inr kek, s1) \<Rightarrow> ((Some kek, None), s1))"

text \<open>\<^verbatim>\<open>storeKekToRegistry\<close>.\<close>

definition storeKekToRegistry ::
  "('w, 'd, 'c, 'a) env \<Rightarrow> KekID \<Rightarrow> string \<Rightarrow> string \<Rightarrow> bool \<Rightarrow> 'w st
     \<Rightarrow> (Kek option \<times> error option) \<times> 'w st" where
  "storeKekToRegistry env key kmsType kmsKeyID shared s =
     (case call (EvRegisterKek (KekID.Name key) kmsType kmsKeyID shared)
                (RegisterKek env (KekID.Name key) kmsType kmsKeyID shared) s of
        (Inl err, s1) \<Rightarrow>
          if restErrorHasPrefix err ''409'' then ((None, None), s1)
          else ((None, Some err), s1)
      | (Inr kek, s1) \<Rightarrow> ((Some kek, None), s1))"

text \<open>The last statements of \<^verbatim>\<open>getOrCreateKek\<close> (the two comparisons with the rule's
  parameters and the return), which every path that has a KEK runs.\<close>

definition getOrCreateKek_compare ::
  "ExecutorTransform \<Rightarrow> string option \<Rightarrow> string option \<Rightarrow> Kek \<Rightarrow> Kek outcome" where
  "getOrCreateKek_compare f kmsType kmsKeyID kek =
     (if (case kmsType of None \<Rightarrow> False
          | Some t \<Rightarrow> length t \<noteq> 0 \<and> t \<noteq> KmsType kek)
      then Error (KmsTypeDiffers (KekName f) (KmsType kek) (case kmsType of None \<Rightarrow> [] | Some t \<Rightarrow> t))
      else if (case kmsKeyID of None \<Rightarrow> False
               | Some k \<Rightarrow> length k \<noteq> 0 \<and> k \<noteq> KmsKeyID kek)
      then Error (KmsKeyIDDiffers (KekName f) (KmsKeyID kek)
                    (case kmsKeyID of None \<Rightarrow> [] | Some k \<Rightarrow> k))
      else Return kek)"

text \<open>\<^verbatim>\<open>getOrCreateKek\<close>. The first lookup's \<^verbatim>\<open>err\<close> is never read; after
  \<^verbatim>\<open>storeKekToRegistry\<close> only \<^verbatim>\<open>kek == nil\<close> is tested, and its \<^verbatim>\<open>err\<close> is overwritten
  by the second lookup.\<close>

definition getOrCreateKek ::
  "('w, 'd, 'c, 'a) env \<Rightarrow> ExecutorTransform \<Rightarrow> RuleContext \<Rightarrow> 'w st \<Rightarrow> Kek outcome \<times> 'w st" where
  "getOrCreateKek env f ctx s =
     (let isRead = (RuleMode ctx = Read);
          kekID = \<lparr>KekID.Name = KekName f, KekID.Deleted = isRead\<rparr>;
          kmsType = GetParameter ctx EncryptKmsType;
          kmsKeyID = GetParameter ctx EncryptKmsKeyID
      in case retrieveKekFromRegistry env kekID s of
           ((Some kek, err), s1) \<Rightarrow> (getOrCreateKek_compare f kmsType kmsKeyID kek, s1)
         | ((None, err), s1) \<Rightarrow>
             if isRead then (Error (NoKekFoundConsume (KekName f)), s1)
             else (case kmsType of
                 None \<Rightarrow> (Error (NoKmsTypeFound (KekName f)), s1)
               | Some t \<Rightarrow>
                   if length t = 0 then (Error (NoKmsTypeFound (KekName f)), s1)
                   else (case kmsKeyID of
                       None \<Rightarrow> (Error (NoKmsKeyIDFound (KekName f)), s1)
                     | Some k \<Rightarrow>
                         if length k = 0 then (Error (NoKmsKeyIDFound (KekName f)), s1)
                         else (case storeKekToRegistry env kekID t k False s1 of
                             ((Some kek, err2), s2) \<Rightarrow>
                               (getOrCreateKek_compare f kmsType kmsKeyID kek, s2)
                           | ((None, err2), s2) \<Rightarrow>
                               (case retrieveKekFromRegistry env kekID s2 of
                                  ((kek3, Some err3), s3) \<Rightarrow> (Error err3, s3)
                                | ((None, None), s3) \<Rightarrow>
                                    (Error (NoKekFoundProduce (KekName f)), s3)
                                | ((Some kek, None), s3) \<Rightarrow>
                                    (getOrCreateKek_compare f kmsType kmsKeyID kek, s3))))))"

subsection \<open>KMS clients\<close>

text \<open>\<^verbatim>\<open>registerKMSClient\<close>.\<close>

definition registerKMSClient ::
  "('w, 'd, 'c, 'a) env \<Rightarrow> 'd \<Rightarrow> (string \<Rightarrow> string option) \<Rightarrow> string \<Rightarrow> 'w st
     \<Rightarrow> (error + 'c) \<times> 'w st" where
  "registerKMSClient env kmsDriver config keyURL s =
     (case call (EvNewKMSClient keyURL) (NewKMSClient env kmsDriver config keyURL) s of
        (Inl err, s1) \<Rightarrow> (Inl err, s1)
      | (Inr kmsClient, s1) \<Rightarrow>
          (case call EvRegisterKMSClient (RegisterKMSClient env kmsClient) s1 of
             (u, s2) \<Rightarrow> (Inr kmsClient, s2)))"

text \<open>\<^verbatim>\<open>getKMSClient\<close>.\<close>

definition getKMSClient ::
  "('w, 'd, 'c, 'a) env \<Rightarrow> (string \<Rightarrow> string option) \<Rightarrow> string \<Rightarrow> 'w st
     \<Rightarrow> (error + 'c) \<times> 'w st" where
  "getKMSClient env config kekURL s =
     (case call (EvGetKMSDriver kekURL) (GetKMSDriver env kekURL) s of
        (Inl err, s1) \<Rightarrow> (Inl err, s1)
      | (Inr driver, s1) \<Rightarrow>
          (case call (EvGetKMSClient kekURL) (GetKMSClient env kekURL) s1 of
             (Inl err, s2) \<Rightarrow> registerKMSClient env driver config kekURL s2
           | (Inr client, s2) \<Rightarrow> (Inr client, s2)))"

text \<open>\<^verbatim>\<open>getAead\<close>.\<close>

definition getAead ::
  "('w, 'd, 'c, 'a) env \<Rightarrow> (string \<Rightarrow> string option) \<Rightarrow> Kek \<Rightarrow> 'w st \<Rightarrow> (error + 'a) \<times> 'w st" where
  "getAead env config kek s =
     (let kekURL = KmsType kek @ ''://'' @ KmsKeyID kek
      in case getKMSClient env config kekURL s of
           (Inl err, s1) \<Rightarrow> (Inl err, s1)
         | (Inr kmsClient, s1) \<Rightarrow> call (EvGetAEAD kekURL) (GetAEAD env kmsClient kekURL) s1)"

subsection \<open>DEK lifecycle\<close>

text \<open>\<^verbatim>\<open>retrieveDekFromRegistry\<close>.\<close>

definition retrieveDekFromRegistry ::
  "('w, 'd, 'c, 'a) env \<Rightarrow> DekID \<Rightarrow> 'w st \<Rightarrow> (Dek option \<times> error option) \<times> 'w st" where
  "retrieveDekFromRegistry env key s =
     (case (if DekID.Version key \<noteq> 0
            then call (EvGetDekVersion (DekID.KekName key) (DekID.Subject key) (DekID.Version key)
                         (Algorithm key) (DekID.Deleted key))
                      (GetDekVersion env (DekID.KekName key) (DekID.Subject key)
                         (DekID.Version key) (Algorithm key) (DekID.Deleted key)) s
            else call (EvGetDek (DekID.KekName key) (DekID.Subject key) (Algorithm key)
                         (DekID.Deleted key))
                      (GetDek env (DekID.KekName key) (DekID.Subject key) (Algorithm key)
                         (DekID.Deleted key)) s) of
        (Inl err, s1) \<Rightarrow>
          if restErrorHasPrefix err ''404'' then ((None, None), s1)
          else ((None, Some err), s1)
      | (Inr dek, s1) \<Rightarrow> ((Some dek, None), s1))"

text \<open>\<^verbatim>\<open>storeDekToRegistry\<close>; \<open>encryptedDek = None\<close> is the nil slice.\<close>

definition storeDekToRegistry ::
  "('w, 'd, 'c, 'a) env \<Rightarrow> DekID \<Rightarrow> byte list option \<Rightarrow> 'w st
     \<Rightarrow> (Dek option \<times> error option) \<times> 'w st" where
  "storeDekToRegistry env key encryptedDek s =
     (let encryptedDekStr = (case encryptedDek of
                               None \<Rightarrow> []
                             | Some b \<Rightarrow> EncodeToString env b)
      in case (if DekID.Version key \<noteq> 0
               then call (EvRegisterDekVersion (DekID.KekName key) (DekID.Subject key)
                            (DekID.Version key) (Algorithm key) encryptedDekStr)
                         (RegisterDekVersion env (DekID.KekName key) (DekID.Subject key)
                            (DekID.Version key) (Algorithm key) encryptedDekStr) s
               else call (EvRegisterDek (DekID.KekName key) (DekID.Subject key) (Algorithm key)
                            encryptedDekStr)
                         (RegisterDek env (DekID.KekName key) (DekID.Subject key) (Algorithm key)
                            encryptedDekStr) s) of
           (Inl err, s1) \<Rightarrow>
             if restErrorHasPrefix err ''409'' then ((None, None), s1)
             else ((None, Some err), s1)
         | (Inr dek, s1) \<Rightarrow> ((Some dek, None), s1))"

text \<open>\<^verbatim>\<open>createDek\<close>; it returns either \<^verbatim>\<open>(nil, err)\<close> or \<^verbatim>\<open>(dek, nil)\<close>.\<close>

definition createDek ::
  "('w, 'd, 'c, 'a) env \<Rightarrow> DekID \<Rightarrow> go_int \<Rightarrow> byte list option \<Rightarrow> 'w st \<Rightarrow> (error + Dek) \<times> 'w st" where
  "createDek env dekID newVersion encryptedDek s =
     (let newDekID = \<lparr>DekID.KekName = DekID.KekName dekID, DekID.Subject = DekID.Subject dekID,
                      DekID.Version = newVersion, Algorithm = Algorithm dekID,
                      DekID.Deleted = DekID.Deleted dekID\<rparr>
      in case storeDekToRegistry env newDekID encryptedDek s of
           ((Some dek, err), s1) \<Rightarrow> (Inr dek, s1)
         | ((None, err), s1) \<Rightarrow>
             (case retrieveDekFromRegistry env dekID s1 of
                ((dek2, Some err2), s2) \<Rightarrow> (Inl err2, s2)
              | ((None, None), s2) \<Rightarrow> (Inl (NoDekFoundProduce (DekID.KekName dekID)), s2)
              | ((Some dek, None), s2) \<Rightarrow> (Inr dek, s2)))"

text \<open>\<^verbatim>\<open>isExpired\<close>; \<open>dek = None\<close> is the nil pointer.\<close>

definition isExpired ::
  "('w, 'd, 'c, 'a) env \<Rightarrow> ExecutorTransform \<Rightarrow> RuleContext \<Rightarrow> Dek option \<Rightarrow> 'w st
     \<Rightarrow> bool \<times> 'w st" where
  "isExpired env f ctx dek s =
     (case call EvNowUnixMilli (NowUnixMilli env) s of
        (now, s1) \<Rightarrow>
          (RuleMode ctx \<noteq> Read \<and>
           0 <s DekExpiryDays f \<and>
           (case dek of
              None \<Rightarrow> False
            | Some d \<Rightarrow> DekExpiryDays f \<le>s div64 (now - Ts d) MillisInDay), s1))"

text \<open>The block of \<^verbatim>\<open>getOrCreateDek\<close> that wraps fresh key material when the KEK is not
  shared; it yields the local variables \<^verbatim>\<open>primitive\<close> and \<^verbatim>\<open>encryptedDek\<close>.\<close>

definition getOrCreateDek_generate ::
  "('w, 'd, 'c, 'a) env \<Rightarrow> ExecutorTransform \<Rightarrow> 'w st
     \<Rightarrow> (error + ('a option \<times> byte list option)) \<times> 'w st" where
  "getOrCreateDek_generate env f s =
     (if \<not> Shared (Kek f) then
        (case getAead env (Config f) (Kek f) s of
           (Inl err, s1) \<Rightarrow> (Inl err, s1)
         | (Inr primitive, s1) \<Rightarrow>
             (case call EvNewKeyData (NewKeyData env (KeyTemplate (Cryptor f))) s1 of
                (Inl err, s2) \<Rightarrow> (Inl err, s2)
              | (Inr rawDek, s2) \<Rightarrow>
                  (case call EvKmsEncrypt (KmsEncrypt env primitive rawDek []) s2 of
                     (Inl err, s3) \<Rightarrow> (Inl err, s3)
                   | (Inr encryptedDek, s3) \<Rightarrow>
                       (Inr (Some primitive, Some encryptedDek), s3))))
      else (Inr (None, None), s))"

text \<open>The last block of \<^verbatim>\<open>getOrCreateDek\<close>, from \<^verbatim>\<open>GetDekKeyMaterialBytes\<close> on: the raw
  key material is unwrapped with the KEK's primitive when the DEK does not carry it.\<close>

definition getOrCreateDek_material ::
  "('w, 'd, 'c, 'a) env \<Rightarrow> ExecutorTransform \<Rightarrow> Dek \<Rightarrow> 'a option \<Rightarrow> 'w st
     \<Rightarrow> Dek outcome \<times> 'w st" where
  "getOrCreateDek_material env f dek primitive s =
     (case call EvGetDekKeyMaterialBytes (GetDekKeyMaterialBytes env dek) s of
        (Inl err, s1) \<Rightarrow> (Error err, s1)
      | (Inr (Some keyBytes), s1) \<Rightarrow> (Return dek, s1)
      | (Inr None, s1) \<Rightarrow>
          (case (case primitive of
                   Some p \<Rightarrow> (Inr p, s1)
                 | None \<Rightarrow> getAead env (Config f) (Kek f) s1) of
             (Inl err, s2) \<Rightarrow> (Error err, s2)
           | (Inr p, s2) \<Rightarrow>
               (case call EvGetDekEncryptedKeyMaterialBytes
                       (GetDekEncryptedKeyMaterialBytes env dek) s2 of
                  (Inl err, s3) \<Rightarrow> (Error err, s3)
                | (Inr encryptedDek, s3) \<Rightarrow>
                    (case call EvKmsDecrypt (KmsDecrypt env p encryptedDek []) s3 of
                       (Inl err, s4) \<Rightarrow> (Error err, s4)
                     | (Inr rawDek, s4) \<Rightarrow>
                         (case call EvSetDekKeyMaterial (SetDekKeyMaterial env dek rawDek) s4 of
                            (dek', s5) \<Rightarrow> (Return dek', s5))))))"

text \<open>\<^verbatim>\<open>getOrCreateDek\<close>; \<open>version = None\<close> is the nil \<^verbatim>\<open>*int\<close>.\<close>

definition getOrCreateDek ::
  "('w, 'd, 'c, 'a) env \<Rightarrow> ExecutorTransform \<Rightarrow> RuleContext \<Rightarrow> go_int option \<Rightarrow> 'w st
     \<Rightarrow> Dek outcome \<times> 'w st" where
  "getOrCreateDek env f ctx version s =
     (let isRead = (RuleMode ctx = Read);
          ver = (case version of None \<Rightarrow> 1 | Some v \<Rightarrow> v);
          dekID = \<lparr>DekID.KekName = KekName f, DekID.Subject = Subject ctx, DekID.Version = ver,
                   Algorithm = DekFormat (Cryptor f), DekID.Deleted = isRead\<rparr>
      in case retrieveDekFromRegistry env dekID s of
           ((dek, Some err), s1) \<Rightarrow> (Error err, s1)
         | ((dek, None), s1) \<Rightarrow>
             (case isExpired env f ctx dek s1 of
                (expired, s2) \<Rightarrow>
                  if dek = None \<or> expired then
                    if isRead then (Error (NoDekFoundConsume (KekName f)), s2)
                    else
                      (case getOrCreateDek_generate env f s2 of
                         (Inl err, s3) \<Rightarrow> (Error err, s3)
                       | (Inr (primitive, encryptedDek), s3) \<Rightarrow>
                           (case (if expired
                                  then (case dek of
                                          None \<Rightarrow> Panic NilPointerDereference
                                        | Some d \<Rightarrow> Return (Dek.Version d + 1))
                                  else Return 1) of
                              Panic p \<Rightarrow> (Panic p, s3)
                            | Error e \<Rightarrow> (Error e, s3)
                            | Return newVersion \<Rightarrow>
                                (case createDek env dekID newVersion encryptedDek s3 of
                                   (Inl err, s4) \<Rightarrow>
                                     (case dek of
                                        None \<Rightarrow> (Error err, s4)
                                      | Some d \<Rightarrow>
                                          (case call_pure EvLogWarn () s4 of
                                             (u, s5) \<Rightarrow>
                                               getOrCreateDek_material env f d primitive s5))
                                 | (Inr result, s4) \<Rightarrow>
                                     getOrCreateDek_material env f result primitive s4)))
                  else
                    (case dek of
                       None \<Rightarrow> (Panic NilPointerDereference, s2)
                     | Some d \<Rightarrow> getOrCreateDek_material env f d None s2)))"

subsection \<open>The field transform\<close>

text \<open>\<^verbatim>\<open>ExecutorTransform.Transform\<close>. \<^verbatim>\<open>ciphertext[5:]\<close> panics on fewer than five bytes.\<close>

definition Transform ::
  "('w, 'd, 'c, 'a) env \<Rightarrow> ExecutorTransform \<Rightarrow> RuleContext \<Rightarrow> FieldType \<Rightarrow> FieldValue \<Rightarrow> 'w st
     \<Rightarrow> FieldValue outcome \<times> 'w st" where
  "Transform env f ctx fieldType fieldValue s =
     (if fieldValue = NilValue then (Return NilValue, s)
      else case RuleMode ctx of
        Write \<Rightarrow>
          (case toBytes fieldType fieldValue of
             Panic p \<Rightarrow> (Panic p, s)
           | Error e \<Rightarrow> (Error e, s)
           | Return None \<Rightarrow> (Error (TypeNotSupported fieldType), s)
           | Return (Some plaintext) \<Rightarrow>
               (case getOrCreateDek env f ctx (if isDekRotated f then Some (- 1) else None) s of
                  (Panic p, s1) \<Rightarrow> (Panic p, s1)
                | (Error e, s1) \<Rightarrow> (Error e, s1)
                | (Return dek, s1) \<Rightarrow>
                    (case call EvGetDekKeyMaterialBytes (GetDekKeyMaterialBytes env dek) s1 of
                       (Inl err, s2) \<Rightarrow> (Error err, s2)
                     | (Inr keyMaterialBytes, s2) \<Rightarrow>
                         (case encrypt env (Cryptor f) (slice_elems keyMaterialBytes) plaintext [] s2 of
                            (Panic p, s3) \<Rightarrow> (Panic p, s3)
                          | (Error e, s3) \<Rightarrow> (Error e, s3)
                          | (Return ciphertext, s3) \<Rightarrow>
                              (case (if isDekRotated f
                                     then prefixVersion (MagicByteV0 env) (Dek.Version dek) ciphertext
                                     else Return ciphertext) of
                                 Panic p \<Rightarrow> (Panic p, s3)
                               | Error e \<Rightarrow> (Error e, s3)
                               | Return framed \<Rightarrow>
                                   if fieldType = TypeString
                                   then (Return (StringValue (EncodeToString env framed)), s3)
                                   else (Return (BytesValue (Some framed)), s3))))))
      | Read \<Rightarrow>
          (case toBytes fieldType fieldValue of
             Panic p \<Rightarrow> (Panic p, s)
           | Error e \<Rightarrow> (Error e, s)
           | Return None \<Rightarrow> (Return fieldValue, s)
           | Return (Some bytes) \<Rightarrow>
               (case (if fieldType = TypeString
                      then DecodeString env (string_of_bytes bytes)
                      else Inr bytes) of
                  Inl err \<Rightarrow> (Error err, s)
                | Inr framed \<Rightarrow>
                    (case (if isDekRotated f
                           then (case extractVersion (MagicByteV0 env) framed of
                                   Panic p \<Rightarrow> Panic p
                                 | Error e \<Rightarrow> Error e
                                 | Return v \<Rightarrow>
                                     if length framed < 5 then Panic SliceBoundsOutOfRange
                                     else Return (Some v, drop 5 framed))
                           else Return (None, framed)) of
                       Panic p \<Rightarrow> (Panic p, s)
                     | Error e \<Rightarrow> (Error e, s)
                     | Return (version, ciphertext) \<Rightarrow>
                         (case getOrCreateDek env f ctx version s of
                            (Panic p, s1) \<Rightarrow> (Panic p, s1)
                          | (Error e, s1) \<Rightarrow> (Error e, s1)
                          | (Return dek, s1) \<Rightarrow>
                              (case call EvGetDekKeyMaterialBytes
                                      (GetDekKeyMaterialBytes env dek) s1 of
                                 (Inl err, s2) \<Rightarrow> (Error err, s2)
                               | (Inr keyMaterialBytes, s2) \<Rightarrow>
                                   (case decrypt env (Cryptor f) (slice_elems keyMaterialBytes)
                                           ciphertext [] s2 of
                                      (Panic p, s3) \<Rightarrow> (Panic p, s3)
                                    | (Error e, s3) \<Rightarrow> (Error e, s3)
                                    | (Return plaintext, s3) \<Rightarrow>
                                        (Return (toObject fieldType plaintext), s3)))))))
      | OtherMode n \<Rightarrow> (Error (UnsupportedRuleMode (RuleMode ctx)), s))"

subsection \<open>An in-memory registry, KMS and cipher\<close>

text \<open>
  Concrete collaborators on which the model can be run: a registry that keeps KEKs and
  DEKs in lists (answering 404-class codes for what is absent and 409-class codes for
  what exists, with a switch that makes a registration fail with a given error), a
  clock, a KMS whose primitive for a key URL prefixes the URL's bytes, and a toy cipher
  that prefixes the key to the reversed plaintext. The codec standing in for base64
  maps every byte to the character with that code.
\<close>

record world =
  w_now :: int64
  w_keks :: "Kek list"
  w_deks :: "((string \<times> string \<times> string) \<times> Dek) list"
  w_registerKekError :: "error option"
  w_registerDekError :: "error option"
  w_kmsClients :: "string list"

definition fakeGetKek :: "string \<Rightarrow> bool \<Rightarrow> world \<Rightarrow> (error + Kek) \<times> world" where
  "fakeGetKek name deleted w =
     (case find (\<lambda>k. Kek.Name k = name) (w_keks w) of
        None \<Rightarrow> (Inl (RestError 40470), w)
      | Some k \<Rightarrow> (Inr k, w))"

definition fakeRegisterKek ::
  "string \<Rightarrow> string \<Rightarrow> string \<Rightarrow> bool \<Rightarrow> world \<Rightarrow> (error + Kek) \<times> world" where
  "fakeRegisterKek name kmsType kmsKeyID shared w =
     (case w_registerKekError w of
        Some e \<Rightarrow> (Inl e, w)
      | None \<Rightarrow>
          (case find (\<lambda>k. Kek.Name k = name) (w_keks w) of
             Some k \<Rightarrow> (Inl (RestError 40972), w)
           | None \<Rightarrow>
               (Inr \<lparr>Kek.Name = name, KmsType = kmsType, KmsKeyID = kmsKeyID, KmsProps = [],
                      Shared = shared\<rparr>,
                w\<lparr>w_keks := \<lparr>Kek.Name = name, KmsType = kmsType, KmsKeyID = kmsKeyID,
                               KmsProps = [], Shared = shared\<rparr> # w_keks w\<rparr>)))"

text \<open>Version \<open>- 1\<close> asks for the latest version, which is the one registered last.\<close>

definition fakeGetDekVersion ::
  "string \<Rightarrow> string \<Rightarrow> go_int \<Rightarrow> string \<Rightarrow> bool \<Rightarrow> world \<Rightarrow> (error + Dek) \<times> world" where
  "fakeGetDekVersion kekName subject version algorithm deleted w =
     (case find (\<lambda>e. fst e = (kekName, subject, algorithm) \<and>
                      (version = - 1 \<or> Dek.Version (snd e) = version)) (w_deks w) of
        None \<Rightarrow> (Inl (RestError 40470), w)
      | Some e \<Rightarrow> (Inr (snd e), w))"

definition fakeGetDek ::
  "string \<Rightarrow> string \<Rightarrow> string \<Rightarrow> bool \<Rightarrow> world \<Rightarrow> (error + Dek) \<times> world" where
  "fakeGetDek kekName subject algorithm deleted w =
     fakeGetDekVersion kekName subject (- 1) algorithm deleted w"

definition fakeRegisterDekVersion ::
  "string \<Rightarrow> string \<Rightarrow> go_int \<Rightarrow> string \<Rightarrow> string \<Rightarrow> world \<Rightarrow> (error + Dek) \<times> world" where
  "fakeRegisterDekVersion kekName subject version algorithm encryptedKeyMaterial w =
     (case w_registerDekError w of
        Some e \<Rightarrow> (Inl e, w)
      | None \<Rightarrow>
          (case find (\<lambda>e. fst e = (kekName, subject, algorithm) \<and>
                           Dek.Version (snd e) = version) (w_deks w) of
             Some e \<Rightarrow> (Inl (RestError 40972), w)
           | None \<Rightarrow>
               (Inr \<lparr>Dek.Version = version, Ts = w_now w,
                      EncryptedKeyMaterial = encryptedKeyMaterial, KeyMaterialBytes = None\<rparr>,
                w\<lparr>w_deks := ((kekName, subject, algorithm),
                               \<lparr>Dek.Version = version, Ts = w_now w,
                                EncryptedKeyMaterial = encryptedKeyMaterial,
                                KeyMaterialBytes = None\<rparr>) # w_deks w\<rparr>)))"

definition fakeRegisterDek ::
  "string \<Rightarrow> string \<Rightarrow> string \<Rightarrow> string \<Rightarrow> world \<Rightarrow> (error + Dek) \<times> world" where
  "fakeRegisterDek kekName subject algorithm encryptedKeyMaterial w =
     fakeRegisterDekVersion kekName subject 1 algorithm encryptedKeyMaterial w"

definition fakeGetKMSClient :: "string \<Rightarrow> world \<Rightarrow> (error + string) \<times> world" where
  "fakeGetKMSClient url w =
     (if url \<in> set (w_kmsClients w) then (Inr url, w)
      else (Inl (ExternalError ''kms client not found''), w))"

definition fakeSeal :: "byte list \<Rightarrow> byte list \<Rightarrow> byte list \<Rightarrow> byte list" where
  "fakeSeal key plaintext associatedData = key @ rev plaintext"

definition fakeOpen :: "byte list \<Rightarrow> byte list \<Rightarrow> byte list \<Rightarrow> error + byte list" where
  "fakeOpen key ciphertext associatedData =
     (if take (length key) ciphertext = key then Inr (rev (drop (length key) ciphertext))
      else Inl (ExternalError ''decryption failed''))"

text \<open>The toy cipher's \<^verbatim>\<open>Decrypt\<close> returns a slice that is not nil.\<close>

definition fakeDecrypt :: "byte list \<Rightarrow> byte list \<Rightarrow> byte list \<Rightarrow> error + byte list option" where
  "fakeDecrypt key ciphertext associatedData =
     (case fakeOpen key ciphertext associatedData of
        Inl err \<Rightarrow> Inl err
      | Inr plaintext \<Rightarrow> Inr (Some plaintext))"

definition AesGcmTypeUrl :: string where
  "AesGcmTypeUrl = ''type.googleapis.com/google.crypto.tink.AesGcmKey''"

definition AesSivTypeUrl :: string where
  "AesSivTypeUrl = ''type.googleapis.com/google.crypto.tink.AesSivKey''"

definition fakePrimitive :: "string \<Rightarrow> byte list \<Rightarrow> error + byte list primitive" where
  "fakePrimitive typeURL key =
     (if typeURL = AesGcmTypeUrl then Inr (AEAD key)
      else if typeURL = AesSivTypeUrl then Inr (DeterministicAEAD key)
      else Inl (ExternalError ''unsupported key type''))"

definition fakeNewKeyData :: "KeyTemplate option \<Rightarrow> world \<Rightarrow> (error + byte list) \<times> world" where
  "fakeNewKeyData template w =
     (case template of
        None \<Rightarrow> (Inl (ExternalError ''nil key template''), w)
      | Some t \<Rightarrow> (Inr (TemplateValue t @ [7, 7, 7]), w))"

definition fake_env :: "(world, unit, string, byte list) env" where
  "fake_env =
     \<lparr>MagicByteV0 = 0,
      NowUnixMilli = (\<lambda>w. (w_now w, w)),
      GetKek = fakeGetKek,
      RegisterKek = fakeRegisterKek,
      GetDek = fakeGetDek,
      GetDekVersion = fakeGetDekVersion,
      RegisterDek = fakeRegisterDek,
      RegisterDekVersion = fakeRegisterDekVersion,
      GetDekKeyMaterialBytes = (\<lambda>dek w. (Inr (KeyMaterialBytes dek), w)),
      GetDekEncryptedKeyMaterialBytes =
        (\<lambda>dek w. (Inr (bytes_of_string (EncryptedKeyMaterial dek)), w)),
      SetDekKeyMaterial = (\<lambda>dek raw w. (dek\<lparr>KeyMaterialBytes := Some raw\<rparr>, w)),
      GetKMSDriver = (\<lambda>url w. (Inr (), w)),
      GetKMSClient = fakeGetKMSClient,
      NewKMSClient = (\<lambda>driver config url w. (Inr url, w)),
      RegisterKMSClient = (\<lambda>client w. ((), w\<lparr>w_kmsClients := client # w_kmsClients w\<rparr>)),
      GetAEAD = (\<lambda>client url w. (Inr (bytes_of_string url), w)),
      KmsEncrypt = (\<lambda>h p ad w. (Inr (fakeSeal h p ad), w)),
      KmsDecrypt = (\<lambda>h c ad w. (fakeOpen h c ad, w)),
      AES128GCMKeyTemplate = \<lparr>TypeUrl = AesGcmTypeUrl, TemplateValue = [16]\<rparr>,
      AES256GCMKeyTemplate = \<lparr>TypeUrl = AesGcmTypeUrl, TemplateValue = [32]\<rparr>,
      AESSIVKeyTemplate = \<lparr>TypeUrl = AesSivTypeUrl, TemplateValue = [64]\<rparr>,
      NewKeyData = fakeNewKeyData,
      Primitive = fakePrimitive,
      Encrypt = (\<lambda>h p ad w. (Inr (fakeSeal h p ad), w)),
      Decrypt = fakeDecrypt,
      EncryptDeterministically = (\<lambda>h p ad. Inr (fakeSeal h p ad)),
      DecryptDeterministically = fakeDecrypt,
      EncodeToString = string_of_bytes,
      DecodeString = (\<lambda>str. Inr (bytes_of_string str))\<rparr>"

text \<open>A registry with nothing in it, at time 0.\<close>

definition world0 :: world where
  "world0 = \<lparr>w_now = 0, w_keks = [], w_deks = [], w_registerKekError = None,
             w_registerDekError = None, w_kmsClients = []\<rparr>"

text \<open>The KEK of the end-to-end scenario, and a rule context and transform that use it.\<close>

definition kek1 :: Kek where
  "kek1 = \<lparr>Kek.Name = ''kek1'', KmsType = ''fake'', KmsKeyID = ''id1'', KmsProps = [],
           Shared = False\<rparr>"

definition ctx1 :: "RuleMode \<Rightarrow> (string \<times> string) list \<Rightarrow> RuleContext" where
  "ctx1 mode params = \<lparr>RuleMode = mode, Subject = ''topic-value'', GetParameter = map_of params\<rparr>"

definition transform1 :: "(string \<times> string) list \<Rightarrow> go_int \<Rightarrow> ExecutorTransform" where
  "transform1 params days =
     \<lparr>Config = Map.empty, Cryptor = getCryptor fake_env (ctx1 Write params),
      KekName = ''kek1'', Kek = kek1, DekExpiryDays = days\<rparr>"

text \<open>The DEK that the first write of the scenario creates, and the world it leaves.\<close>

definition dek1 :: Dek where
  "dek1 = \<lparr>Dek.Version = 1, Ts = 0,
            EncryptedKeyMaterial = ''fake://id1'' @ [CHR 0x07, CHR 0x07, CHR 0x07, CHR '' ''],
            KeyMaterialBytes = Some [32, 7, 7, 7]\<rparr>"

definition world1 :: world where
  "world1 = world0\<lparr>w_deks := [((''kek1'', ''topic-value'', ''AES256_GCM''),
                                  dek1\<lparr>KeyMaterialBytes := None\<rparr>)],
                    w_kmsClients := [''fake://id1'']\<rparr>"

text \<open>The calls the first write of the scenario makes to obtain its DEK.\<close>

definition trace1 :: "event list" where
  "trace1 =
     [EvGetDekVersion ''kek1'' ''topic-value'' 1 ''AES256_GCM'' False, EvNowUnixMilli,
      EvGetKMSDriver ''fake://id1'', EvGetKMSClient ''fake://id1'',
      EvNewKMSClient ''fake://id1'', EvRegisterKMSClient, EvGetAEAD ''fake://id1'',
      EvNewKeyData, EvKmsEncrypt,
      EvRegisterDekVersion ''kek1'' ''topic-value'' 1 ''AES256_GCM''
        (''fake://id1'' @ [CHR 0x07, CHR 0x07, CHR 0x07, CHR '' '']),
      EvGetDekKeyMaterialBytes, EvGetDekEncryptedKeyMaterialBytes, EvKmsDecrypt,
      EvSetDekKeyMaterial]"

text \<open>The calls the read that follows makes to obtain the same DEK.\<close>

definition trace2 :: "event list" where
  "trace2 =
     [EvGetDekVersion ''kek1'' ''topic-value'' 1 ''AES256_GCM'' True, EvNowUnixMilli,
      EvGetDekKeyMaterialBytes, EvGetKMSDriver ''fake://id1'', EvGetKMSClient ''fake://id1'',
      EvGetAEAD ''fake://id1'', EvGetDekEncryptedKeyMaterialBytes, EvKmsDecrypt,
      EvSetDekKeyMaterial]"

text \<open>What the two comparisons at the end of \<^verbatim>\<open>getOrCreateKek\<close> accept: each of the rule's
  KMS type and KMS key ID is absent, empty, or equal to the KEK's.\<close>

definition kekMatchesRule :: "RuleContext \<Rightarrow> Kek \<Rightarrow> bool" where
  "kekMatchesRule ctx kek =
     ((case GetParameter ctx EncryptKmsType of
         None \<Rightarrow> True
       | Some t \<Rightarrow> t = [] \<or> t = KmsType kek)
      \<and> (case GetParameter ctx EncryptKmsKeyID of
            None \<Rightarrow> True
          | Some k \<Rightarrow> k = [] \<or> k = KmsKeyID kek))"

text \<open>The same scenario with the deterministic cipher and rotation: the rule parameters,
  the DEK of version 1 with its key material, and a registry that holds that DEK.\<close>

definition paramsSiv :: "(string \<times> string) list" where
  "paramsSiv = [(EncryptDekAlgorithm, Aes256Siv)]"

definition dekSiv :: Dek where
  "dekSiv = \<lparr>Dek.Version = 1, Ts = 0,
              EncryptedKeyMaterial = ''fake://id1'' @ [CHR 0x07, CHR 0x07, CHR 0x07, CHR ''@''],
              KeyMaterialBytes = Some [64, 7, 7, 7]\<rparr>"

definition worldSiv :: world where
  "worldSiv = world0\<lparr>w_deks := [((''kek1'', ''topic-value'', ''AES256_SIV''), dekSiv)]\<rparr>"

section \<open>Properties\<close>

subsection \<open>Library facts\<close>

lemma string_of_bytes_of_string: "string_of_bytes (bytes_of_string str) = str"
  by (induction str) (simp_all add: bytes_of_string_def string_of_bytes_def unat_of_nat)

lemma bytes_of_string_of_bytes: "bytes_of_string (string_of_bytes b) = b"
proof -
  have "word_of_nat (unat a mod 256) = a" for a :: "8 word"
    using unsigned_less [of a, where 'a=nat] by simp
  then show ?thesis
    by (induction b) (simp_all add: bytes_of_string_def string_of_bytes_def)
qed

lemma Uint32_PutUint32: "Uint32 (PutUint32 v @ rest) = Return v"
  unfolding PutUint32_def
  apply simp
  apply (rule bit_word_eqI)
  apply (simp add: bit_simps)
  apply (case_tac "n < 8"; simp)
  apply (case_tac "n < 16"; simp)
  apply (case_tac "n < 24"; simp)
  apply auto
  done

lemma ucast_ucast_version:
  "unat (version :: 64 word) < 2 ^ 32 \<Longrightarrow>
   (ucast (ucast version :: 32 word) :: 64 word) = version"
  apply (rule word_unat_eq_iff [THEN iffD2])
  apply (simp add: unsigned_ucast_eq unsigned_take_bit_eq take_bit_nat_eq_self_iff)
  done

lemma big_endian_digits:
  assumes "(n::nat) < 4294967296"
  shows "n = n div 16777216 * 16777216 + n div 65536 mod 256 * 65536
             + n div 256 mod 256 * 256 + n mod 256"
proof -
  define a where "a = n div 256"
  define b where "b = a div 256"
  define c where "c = b div 256"
  have n: "n = a * 256 + n mod 256" by (simp add: a_def)
  have a: "a = b * 256 + a mod 256" by (simp add: b_def)
  have b: "b = c * 256 + b mod 256" by (simp add: c_def)
  have b2: "b = n div 65536" by (simp add: b_def a_def div_mult2_eq)
  have c2: "c = n div 16777216" by (simp add: c_def b2 div_mult2_eq)
  have "n = c * 16777216 + b mod 256 * 65536 + a mod 256 * 256 + n mod 256"
    using n a b by simp
  then show ?thesis unfolding c2 [symmetric] b2 [symmetric] a_def [symmetric] .
qed

lemma unat_byte_of_word:
  "unat (ucast (drop_bit k (v::32 word)) :: 8 word) = unat v div 2 ^ k mod 256"
  by (simp only: unsigned_ucast_eq unsigned_take_bit_eq unat_drop_bit_eq)
     (simp add: take_bit_eq_mod drop_bit_eq_div)

lemma PutUint32_big_endian:
  "PutUint32 v = [b0, b1, b2, b3] \<Longrightarrow>
   unat v = unat b0 * 2 ^ 24 + unat b1 * 2 ^ 16 + unat b2 * 2 ^ 8 + unat b3"
proof -
  assume eq: "PutUint32 v = [b0, b1, b2, b3]"
  have lt: "unat v < 4294967296" using unsigned_less [of v, where 'a=nat] by simp
  then have top: "unat v div 16777216 mod 256 = unat v div 16777216" by simp
  have low: "unat (ucast v :: 8 word) = unat v mod 256"
    using unat_byte_of_word [of 0 v] by simp
  have "unat v = unat (ucast (drop_bit 24 v) :: 8 word) * 2 ^ 24
                 + unat (ucast (drop_bit 16 v) :: 8 word) * 2 ^ 16
                 + unat (ucast (drop_bit 8 v) :: 8 word) * 2 ^ 8 + unat (ucast v :: 8 word)"
    unfolding unat_byte_of_word low
    using big_endian_digits [OF lt] top by simp
  with eq show ?thesis by (simp add: PutUint32_def)
qed

subsection \<open>Unfolding the in-memory collaborators\<close>

lemma fake_env_sel:
  "MagicByteV0 fake_env = 0"
  "NowUnixMilli fake_env = (\<lambda>w. (w_now w, w))"
  "GetKek fake_env = fakeGetKek"
  "RegisterKek fake_env = fakeRegisterKek"
  "GetDek fake_env = fakeGetDek"
  "GetDekVersion fake_env = fakeGetDekVersion"
  "RegisterDek fake_env = fakeRegisterDek"
  "RegisterDekVersion fake_env = fakeRegisterDekVersion"
  "GetDekKeyMaterialBytes fake_env = (\<lambda>dek w. (Inr (KeyMaterialBytes dek), w))"
  "GetDekEncryptedKeyMaterialBytes fake_env =
        (\<lambda>dek w. (Inr (bytes_of_string (EncryptedKeyMaterial dek)), w))"
  "SetDekKeyMaterial fake_env = (\<lambda>dek raw w. (dek\<lparr>KeyMaterialBytes := Some raw\<rparr>, w))"
  "GetKMSDriver fake_env = (\<lambda>url w. (Inr (), w))"
  "GetKMSClient fake_env = fakeGetKMSClient"
  "NewKMSClient fake_env = (\<lambda>driver config url w. (Inr url, w))"
  "RegisterKMSClient fake_env =
        (\<lambda>client w. ((), w\<lparr>w_kmsClients := client # w_kmsClients w\<rparr>))"
  "GetAEAD fake_env = (\<lambda>client url w. (Inr (bytes_of_string url), w))"
  "KmsEncrypt fake_env = (\<lambda>h p ad w. (Inr (fakeSeal h p ad), w))"
  "KmsDecrypt fake_env = (\<lambda>h c ad w. (fakeOpen h c ad, w))"
  "AES128GCMKeyTemplate fake_env = \<lparr>TypeUrl = AesGcmTypeUrl, TemplateValue = [16]\<rparr>"
  "AES256GCMKeyTemplate fake_env = \<lparr>TypeUrl = AesGcmTypeUrl, TemplateValue = [32]\<rparr>"
  "AESSIVKeyTemplate fake_env = \<lparr>TypeUrl = AesSivTypeUrl, TemplateValue = [64]\<rparr>"
  "NewKeyData fake_env = fakeNewKeyData"
  "Primitive fake_env = fakePrimitive"
  "Encrypt fake_env = (\<lambda>h p ad w. (Inr (fakeSeal h p ad), w))"
  "Decrypt fake_env = fakeDecrypt"
  "EncryptDeterministically fake_env = (\<lambda>h p ad. Inr (fakeSeal h p ad))"
  "DecryptDeterministically fake_env = fakeDecrypt"
  "EncodeToString fake_env = string_of_bytes"
  "DecodeString fake_env = (\<lambda>str. Inr (bytes_of_string str))"
  by (simp_all add: fake_env_def)

lemmas fake_defs = world0_def kek1_def ctx1_def transform1_def fakeGetKek_def
  fakeRegisterKek_def fakeGetDekVersion_def fakeGetDek_def fakeRegisterDekVersion_def
  fakeRegisterDek_def fakeGetKMSClient_def fakeSeal_def fakeOpen_def fakeDecrypt_def
  fakePrimitive_def
  fakeNewKeyData_def AesGcmTypeUrl_def AesSivTypeUrl_def dek1_def world1_def

lemmas model_defs = Transform_def getOrCreateDek_def getOrCreateDek_generate_def
  getOrCreateDek_material_def createDek_def storeDekToRegistry_def retrieveDekFromRegistry_def
  isExpired_def getAead_def getKMSClient_def registerKMSClient_def encrypt_def decrypt_def
  toBytes_def toObject_def isDekRotated_def getCryptor_def call_def call_pure_def
  slice_elems_def prefixVersion_def extractVersion_def PutUint32_def getOrCreateKek_def
  getOrCreateKek_compare_def retrieveKekFromRegistry_def storeKekToRegistry_def Let_def

lemmas char_defs = bytes_of_string_def string_of_bytes_def char_of_def bit_Suc_0_iff

lemma restErrorHasPrefix_40470: "restErrorHasPrefix (RestError 40470) ''404''"
  by (simp add: restErrorHasPrefix_def HasPrefix_def Itoa_def digits.simps char_defs)

lemma restErrorHasPrefix_40972: "restErrorHasPrefix (RestError 40972) ''409''"
  by (simp add: restErrorHasPrefix_def HasPrefix_def Itoa_def digits.simps char_defs)

lemma restErrorHasPrefix_50001: "\<not> restErrorHasPrefix (RestError 50001) ''409''"
  by (simp add: restErrorHasPrefix_def HasPrefix_def Itoa_def digits.simps char_defs)

lemmas rest_codes = restErrorHasPrefix_40470 restErrorHasPrefix_40972 restErrorHasPrefix_50001

lemmas const_defs = EncryptKmsType_def EncryptKmsKeyID_def EncryptDekAlgorithm_def
  Aes128Gcm_def Aes256Gcm_def Aes256Siv_def

subsection \<open>Runs on the in-memory collaborators\<close>

lemma run_write_dek:
  "getOrCreateDek fake_env (transform1 [] 0) (ctx1 Write []) None (world0, [])
     = (Return dek1, (world1, trace1))"
  by (simp add: model_defs fake_env_sel fake_defs const_defs rest_codes trace1_def char_defs
        word_sless_alt)

lemma fake_codec: "\<forall>x. DecodeString fake_env (EncodeToString fake_env x) = Inr x"
  by (simp add: fake_env_sel bytes_of_string_of_bytes)

lemma fake_aead:
  "\<forall>h pt x w w'. Encrypt fake_env h pt [] w = (Inr x, w')
      \<longrightarrow> (\<exists>p. Decrypt fake_env h x [] = Inr p \<and> slice_elems p = pt)"
  by (auto simp add: fake_env_sel fakeSeal_def fakeOpen_def fakeDecrypt_def slice_elems_def)

lemma fake_daead:
  "\<forall>h pt x. EncryptDeterministically fake_env h pt [] = Inr x
      \<longrightarrow> (\<exists>p. DecryptDeterministically fake_env h x [] = Inr p \<and> slice_elems p = pt)"
  by (auto simp add: fake_env_sel fakeSeal_def fakeOpen_def fakeDecrypt_def slice_elems_def)

lemma run_read_dek:
  "getOrCreateDek fake_env (transform1 [] 0) (ctx1 Read []) None (world1, [])
     = (Return dek1, (world1, trace2))"
  by (simp add: model_defs fake_env_sel fake_defs const_defs rest_codes trace2_def char_defs
        word_sless_alt)

lemma run_not_rotated: "\<not> isDekRotated (transform1 [] 0)"
  by (simp add: isDekRotated_def transform1_def)

lemma run_key:
  "call EvGetDekKeyMaterialBytes (GetDekKeyMaterialBytes fake_env dek1) (w, tr)
     = (Inr (Some [32, 7, 7, 7]), (w, tr @ [EvGetDekKeyMaterialBytes]))"
  by (simp add: call_def fake_env_sel dek1_def)

lemma run_encrypt:
  "encrypt fake_env (Cryptor (transform1 [] 0)) (slice_elems (Some [32, 7, 7, 7])) p [] (w, tr)
     = (Return ([32, 7, 7, 7] @ rev p), (w, tr @ [EvPrimitive, EvEncrypt]))"
  by (simp add: encrypt_def getCryptor_def transform1_def ctx1_def fake_env_sel call_def
        call_pure_def slice_elems_def fakePrimitive_def fakeSeal_def const_defs
        AesGcmTypeUrl_def AesSivTypeUrl_def)

subsection \<open>Nil and unsupported field values\<close>

text \<open>
  C9. In every rule mode, \<open>Transform\<close> on the nil field value returns nil with no error
  and leaves the state as it was: the world is untouched and no call is added to the
  trace, so no registry, KMS or cryptographic operation took place.
\<close>

theorem Transform_nil_passthrough:
  "Transform env f ctx fieldType NilValue s = (Return NilValue, s)"
  by (simp add: Transform_def)

text \<open>
  C10. For a non-nil field value whose field type is neither bytes nor string, the read
  transform returns the value unchanged, with no error and no call made, and the write
  transform fails with the "not supported for encryption" error.
\<close>

theorem Transform_other_field_type:
  assumes "fieldValue \<noteq> NilValue" and "fieldType \<noteq> TypeBytes" and "fieldType \<noteq> TypeString"
  shows "(RuleMode ctx = Read \<longrightarrow>
            Transform env f ctx fieldType fieldValue s = (Return fieldValue, s))
       \<and> (RuleMode ctx = Write \<longrightarrow>
            Transform env f ctx fieldType fieldValue s
              = (Error (TypeNotSupported fieldType), s))"
  using assms by (cases fieldType) (simp_all add: Transform_def toBytes_def)

theorem Transform_other_field_type_witness:
  "OtherValue 7 \<noteq> NilValue \<and> OtherType 3 \<noteq> TypeBytes \<and> OtherType 3 \<noteq> TypeString
   \<and> RuleMode (ctx1 Read []) = Read \<and> RuleMode (ctx1 Write []) = Write
   \<and> Transform fake_env (transform1 [] 0) (ctx1 Read []) (OtherType 3) (OtherValue 7)
        (world0, []) = (Return (OtherValue 7), (world0, []))
   \<and> Transform fake_env (transform1 [] 0) (ctx1 Write []) (OtherType 3) (OtherValue 7)
        (world0, []) = (Error (TypeNotSupported (OtherType 3)), (world0, []))"
  using Transform_other_field_type [of "OtherValue 7" "OtherType 3" "ctx1 Read []" fake_env
          "transform1 [] 0" "(world0, [])"]
        Transform_other_field_type [of "OtherValue 7" "OtherType 3" "ctx1 Write []" fake_env
          "transform1 [] 0" "(world0, [])"]
  by (simp add: ctx1_def)

subsection \<open>Unsupported algorithm identifiers\<close>

lemma getCryptor_unsupported:
  assumes "GetParameter ctx EncryptDekAlgorithm = Some alg"
    and "alg \<noteq> Aes128Gcm" and "alg \<noteq> Aes256Gcm" and "alg \<noteq> Aes256Siv"
  shows "KeyTemplate (getCryptor env ctx) = None"
    and "encrypt env (getCryptor env ctx) dek plaintext ad s = (Panic NilPointerDereference, s)"
    and "decrypt env (getCryptor env ctx) dek ciphertext ad s = (Panic NilPointerDereference, s)"
  using assms by (simp_all add: getCryptor_def encrypt_def decrypt_def)

text \<open>
  C6. For the identifier \<^verbatim>\<open>AES512_GCM\<close>, which is none of the three supported ones,
  \<open>getCryptor\<close> leaves the key template nil; \<open>encrypt\<close> and \<open>decrypt\<close> with that cryptor
  then end in a nil-pointer panic (before any call is made), not in an error return.
\<close>

theorem unsupported_algorithm_panics:
  "KeyTemplate (getCryptor fake_env (ctx1 Write [(EncryptDekAlgorithm, ''AES512_GCM'')])) = None
   \<and> encrypt fake_env (getCryptor fake_env (ctx1 Write [(EncryptDekAlgorithm, ''AES512_GCM'')]))
        [1, 2] [3] [] (world0, []) = (Panic NilPointerDereference, (world0, []))
   \<and> decrypt fake_env (getCryptor fake_env (ctx1 Read [(EncryptDekAlgorithm, ''AES512_GCM'')]))
        [1, 2] [3] [] (world0, []) = (Panic NilPointerDereference, (world0, []))"
  by (simp add: getCryptor_def encrypt_def decrypt_def ctx1_def const_defs)

subsection \<open>Parsing the version frame\<close>

lemma extractVersion_wrong_marker:
  "b \<noteq> magic \<Longrightarrow> extractVersion magic (b # rest) = Error UnknownMagicByte"
  by (simp add: extractVersion_def)

lemma extractVersion_short_marker:
  "length (magic # rest) < 5 \<Longrightarrow>
   extractVersion magic (magic # rest) = Panic SliceBoundsOutOfRange"
  by (simp add: extractVersion_def)

text \<open>
  C4. With rotation enabled (expiry of 2 days), on the read path: the empty ciphertext
  makes \<open>extractVersion\<close>, and with it \<open>Transform\<close>, panic on the index expression, and a
  three-byte ciphertext that starts with the marker makes them panic on the slice
  expression; neither ends in an error return. (On a slice whose capacity reaches five
  bytes the second panic is raised by \<^verbatim>\<open>ciphertext[5:]\<close> in \<open>Transform\<close> instead.)
\<close>

theorem extractVersion_short_input_panics:
  "extractVersion (MagicByteV0 fake_env) [] = Panic IndexOutOfRange
   \<and> extractVersion (MagicByteV0 fake_env) [0, 0, 0] = Panic SliceBoundsOutOfRange
   \<and> Transform fake_env (transform1 [] 2) (ctx1 Read []) TypeBytes (BytesValue (Some []))
        (world0, []) = (Panic IndexOutOfRange, (world0, []))
   \<and> Transform fake_env (transform1 [] 2) (ctx1 Read []) TypeBytes (BytesValue (Some [0, 0, 0]))
        (world0, []) = (Panic SliceBoundsOutOfRange, (world0, []))"
  by (simp add: extractVersion_def Transform_def toBytes_def isDekRotated_def fake_env_def
        ctx1_def transform1_def word_sless_alt)

subsection \<open>DEK expiry\<close>

lemma sint_div64_MillisInDay: "sint (div64 a MillisInDay) = sint a sdiv 86400000"
proof -
  have lo: "- (2 ^ 63) \<le> sint a" using sint_ge [of a] by simp
  have hi: "sint a < 2 ^ 63" using sint_lt [of a] by simp
  have "\<bar>sint a\<bar> \<le> 9223372036854775808" using lo hi by simp
  then have "\<bar>sint a\<bar> div 86400000 \<le> 9223372036854775808 div 86400000"
    by (rule zdiv_mono1) simp
  then have q: "\<bar>sint a\<bar> div 86400000 \<le> 106751991167" by simp
  define d where "d = \<bar>sint a\<bar> div 86400000"
  have d: "0 \<le> d" "d \<le> 106751991167" using q by (simp_all add: d_def)
  have e: "sint a sdiv 86400000 = sgn (sint a) * d"
    by (simp add: signed_divide_int_def d_def)
  have "- (2 ^ 63) \<le> sint a sdiv 86400000" "sint a sdiv 86400000 < 2 ^ 63"
    unfolding e using d by (auto simp add: sgn_if)
  then have "sint (word_of_int (sint a sdiv 86400000) :: 64 word) = sint a sdiv 86400000"
    by (simp add: sint_sbintrunc' signed_take_bit_int_eq_self)
  moreover have "sint (MillisInDay) = 86400000" by (simp add: MillisInDay_def)
  ultimately show ?thesis by (simp add: div64_def)
qed

text \<open>
  \<open>isExpired\<close> is called by \<open>getOrCreateDek\<close> only, and \<open>getOrCreateDek\<close> by the write and
  the read branch of \<open>Transform\<close> only: under any other rule mode \<open>Transform\<close> returns the
  "unsupported rule mode" error with no call made, the clock included. So the rule mode
  that \<open>isExpired\<close> sees is write or read.
\<close>

lemma other_mode_never_reaches_isExpired:
  "RuleMode ctx = OtherMode n \<Longrightarrow> fieldValue \<noteq> NilValue \<Longrightarrow>
   Transform env f ctx fieldType fieldValue s = (Error (UnsupportedRuleMode (OtherMode n)), s)"
  by (simp add: Transform_def)

text \<open>
  C2. For a DEK with timestamp \<open>Ts\<close> and any configured expiry in days, under the rule
  modes that reach it (write and read), \<open>isExpired\<close> holds exactly when the rule mode is
  write, the expiry is positive, and \<open>(now - Ts) / 86400000\<close> is at least the expiry, the
  division being the truncating integer division of the 64-bit difference. In
  particular, in write mode with an expiry of 2 days the DEK is not expired at
  \<open>now = Ts + 2 * 86400000 - 1\<close> and is expired at \<open>now = Ts + 2 * 86400000\<close>, and in read
  mode a DEK is never expired.
\<close>

theorem isExpired_exactly:
  assumes "RuleMode ctx = Write \<or> RuleMode ctx = Read"
  shows "(fst (isExpired env f ctx (Some dek) s) \<longleftrightarrow>
            RuleMode ctx = Write \<and> 0 < sint (DekExpiryDays f) \<and>
            sint (DekExpiryDays f)
              \<le> sint (fst (NowUnixMilli env (fst s)) - Ts dek) sdiv 86400000)
       \<and> (RuleMode ctx = Read \<longrightarrow> \<not> fst (isExpired env f ctx (Some dek) s))
       \<and> (RuleMode ctx = Write \<and> DekExpiryDays f = 2 \<and>
            fst (NowUnixMilli env (fst s)) = Ts dek + 2 * 86400000 - 1
            \<longrightarrow> \<not> fst (isExpired env f ctx (Some dek) s))
       \<and> (RuleMode ctx = Write \<and> DekExpiryDays f = 2 \<and>
            fst (NowUnixMilli env (fst s)) = Ts dek + 2 * 86400000
            \<longrightarrow> fst (isExpired env f ctx (Some dek) s))"
  using assms
  by (auto simp add: isExpired_def call_def word_sless_alt word_sle_eq sint_div64_MillisInDay
        split: prod.splits)

theorem isExpired_exactly_witness:
  "RuleMode (ctx1 Write []) = Write \<and> DekExpiryDays (transform1 [] 2) = 2
   \<and> fst (NowUnixMilli fake_env (fst (world0\<lparr>w_now := 172800000\<rparr>, [])))
       = Ts dek1 + 2 * 86400000
   \<and> fst (isExpired fake_env (transform1 [] 2) (ctx1 Write []) (Some dek1)
            (world0\<lparr>w_now := 172800000\<rparr>, []))
   \<and> fst (NowUnixMilli fake_env (fst (world0\<lparr>w_now := 172799999\<rparr>, [])))
       = Ts dek1 + 2 * 86400000 - 1
   \<and> \<not> fst (isExpired fake_env (transform1 [] 2) (ctx1 Write []) (Some dek1)
            (world0\<lparr>w_now := 172799999\<rparr>, []))
   \<and> RuleMode (ctx1 Read []) = Read
   \<and> \<not> fst (isExpired fake_env (transform1 [] 2) (ctx1 Read []) (Some dek1)
            (world0\<lparr>w_now := 172800000\<rparr>, []))"
proof -
  have w: "RuleMode (ctx1 Write []) = Write \<or> RuleMode (ctx1 Write []) = Read"
    and r: "RuleMode (ctx1 Read []) = Write \<or> RuleMode (ctx1 Read []) = Read"
    by (simp_all add: ctx1_def)
  show ?thesis
    using isExpired_exactly [OF w, of fake_env "transform1 [] 2" dek1
            "(world0\<lparr>w_now := 172800000\<rparr>, [])"]
          isExpired_exactly [OF w, of fake_env "transform1 [] 2" dek1
            "(world0\<lparr>w_now := 172799999\<rparr>, [])"]
          isExpired_exactly [OF r, of fake_env "transform1 [] 2" dek1
            "(world0\<lparr>w_now := 172800000\<rparr>, [])"]
    by (simp add: fake_env_sel ctx1_def transform1_def dek1_def world0_def)
qed

subsection \<open>The version frame\<close>

lemma length_PutUint32: "length (PutUint32 v) = 4"
  by (simp add: PutUint32_def)

lemma extractVersion_frame:
  "extractVersion magic (magic # PutUint32 v @ c) = Return (ucast v)"
  using Uint32_PutUint32 [of v c]
  by (simp add: extractVersion_def length_PutUint32 PutUint32_def)

lemma toBytes_not_nil: "toBytes fieldType fieldValue = Return (Some b) \<Longrightarrow> fieldValue \<noteq> NilValue"
  by (auto simp add: toBytes_def split: FieldType.splits)

lemma Transform_Write_result:
  assumes "RuleMode ctx = Write"
    and "toBytes fieldType fieldValue = Return (Some plaintext)"
    and "getOrCreateDek env f ctx (if isDekRotated f then Some (- 1) else None) s = (Return dek, s1)"
    and "call EvGetDekKeyMaterialBytes (GetDekKeyMaterialBytes env dek) s1 = (Inr k, s2)"
    and "encrypt env (Cryptor f) (slice_elems k) plaintext [] s2 = (Return c, s3)"
  shows "Transform env f ctx fieldType fieldValue s =
           (Return (let framed = (if isDekRotated f
                                  then MagicByteV0 env # PutUint32 (ucast (Dek.Version dek)) @ c
                                  else c)
                    in if fieldType = TypeString then StringValue (EncodeToString env framed)
                       else BytesValue (Some framed)), s3)"
  using assms toBytes_not_nil [OF assms(2)]
  by (simp add: Transform_def prefixVersion_def)

text \<open>
  C5. For a DEK version that fits 32 unsigned bits and any ciphertext \<open>c\<close>, \<open>prefixVersion\<close>
  returns the marker byte, then four bytes that are the version in big-endian order,
  then \<open>c\<close>; \<open>extractVersion\<close> reads the version back from that frame, and dropping
  five bytes gives \<open>c\<close>. The write transform returns (base64-encoded for a string field)
  the raw ciphertext of \<open>encrypt\<close> with the frame of the DEK's version in front when
  rotation is enabled, and the raw ciphertext alone, with no header, when it is not.
\<close>

theorem rotation_framing:
  assumes "unat version < 2 ^ 32"
  shows "(\<exists>b0 b1 b2 b3.
            prefixVersion magic version c = Return (magic # b0 # b1 # b2 # b3 # c)
            \<and> unat version = unat b0 * 2 ^ 24 + unat b1 * 2 ^ 16 + unat b2 * 2 ^ 8 + unat b3
            \<and> extractVersion magic (magic # b0 # b1 # b2 # b3 # c) = Return version
            \<and> drop 5 (magic # b0 # b1 # b2 # b3 # c) = c)
       \<and> (RuleMode ctx = Write
          \<and> toBytes fieldType fieldValue = Return (Some plaintext)
          \<and> getOrCreateDek env f ctx (if isDekRotated f then Some (- 1) else None) s
              = (Return dek, s1)
          \<and> call EvGetDekKeyMaterialBytes (GetDekKeyMaterialBytes env dek) s1 = (Inr k, s2)
          \<and> encrypt env (Cryptor f) (slice_elems k) plaintext [] s2 = (Return c, s3)
          \<longrightarrow> Transform env f ctx fieldType fieldValue s
                = (Return
                     (if fieldType = TypeString
                      then StringValue (EncodeToString env
                             (if isDekRotated f
                              then MagicByteV0 env # PutUint32 (ucast (Dek.Version dek)) @ c
                              else c))
                      else BytesValue (Some
                             (if isDekRotated f
                              then MagicByteV0 env # PutUint32 (ucast (Dek.Version dek)) @ c
                              else c))), s3))"
proof (intro conjI impI)
  obtain b0 b1 b2 b3 where bs: "PutUint32 (ucast version) = [b0, b1, b2, b3]"
    by (simp add: PutUint32_def)
  have v: "unat (ucast version :: 32 word) = unat version"
    using assms by (simp add: unsigned_ucast_eq unsigned_take_bit_eq take_bit_nat_eq_self_iff)
  have "extractVersion magic (magic # PutUint32 (ucast version) @ c) = Return version"
    using assms by (simp add: extractVersion_frame ucast_ucast_version)
  then show "\<exists>b0 b1 b2 b3.
            prefixVersion magic version c = Return (magic # b0 # b1 # b2 # b3 # c)
            \<and> unat version = unat b0 * 2 ^ 24 + unat b1 * 2 ^ 16 + unat b2 * 2 ^ 8 + unat b3
            \<and> extractVersion magic (magic # b0 # b1 # b2 # b3 # c) = Return version
            \<and> drop 5 (magic # b0 # b1 # b2 # b3 # c) = c"
    using PutUint32_big_endian [OF bs] v bs
    by (intro exI [of _ b0] exI [of _ b1] exI [of _ b2] exI [of _ b3])
       (simp add: prefixVersion_def)
next
  assume a: "RuleMode ctx = Write
          \<and> toBytes fieldType fieldValue = Return (Some plaintext)
          \<and> getOrCreateDek env f ctx (if isDekRotated f then Some (- 1) else None) s
              = (Return dek, s1)
          \<and> call EvGetDekKeyMaterialBytes (GetDekKeyMaterialBytes env dek) s1 = (Inr k, s2)
          \<and> encrypt env (Cryptor f) (slice_elems k) plaintext [] s2 = (Return c, s3)"
  then have a1: "RuleMode ctx = Write"
    and tb: "toBytes fieldType fieldValue = Return (Some plaintext)"
    and a2: "getOrCreateDek env f ctx (if isDekRotated f then Some (- 1) else None) s
              = (Return dek, s1)"
    and a3: "call EvGetDekKeyMaterialBytes (GetDekKeyMaterialBytes env dek) s1 = (Inr k, s2)"
    and a4: "encrypt env (Cryptor f) (slice_elems k) plaintext [] s2 = (Return c, s3)"
    by simp_all
  show "Transform env f ctx fieldType fieldValue s
                = (Return
                     (if fieldType = TypeString
                      then StringValue (EncodeToString env
                             (if isDekRotated f
                              then MagicByteV0 env # PutUint32 (ucast (Dek.Version dek)) @ c
                              else c))
                      else BytesValue (Some
                             (if isDekRotated f
                              then MagicByteV0 env # PutUint32 (ucast (Dek.Version dek)) @ c
                              else c))), s3)"
    using Transform_Write_result [OF a1 tb a2 a3 a4] by (simp add: Let_def)
qed

theorem rotation_framing_witness:
  "unat (1 :: 64 word) < 2 ^ 32
   \<and> (\<exists>b0 b1 b2 b3.
         prefixVersion 0 1 [32, 7, 7, 7, 3, 2, 1]
           = Return (0 # b0 # b1 # b2 # b3 # [32, 7, 7, 7, 3, 2, 1])
         \<and> unat (1 :: 64 word) = unat b0 * 2 ^ 24 + unat b1 * 2 ^ 16 + unat b2 * 2 ^ 8 + unat b3
         \<and> extractVersion 0 (0 # b0 # b1 # b2 # b3 # [32, 7, 7, 7, 3, 2, 1]) = Return 1
         \<and> drop 5 (0 # b0 # b1 # b2 # b3 # [32, 7, 7, 7, 3, 2, 1]) = [32, 7, 7, 7, 3, 2, 1])
   \<and> RuleMode (ctx1 Write []) = Write
   \<and> toBytes TypeBytes (BytesValue (Some [1, 2, 3])) = Return (Some [1, 2, 3])
   \<and> getOrCreateDek fake_env (transform1 [] 0) (ctx1 Write []) None (world0, [])
       = (Return dek1, (world1, trace1))
   \<and> Transform fake_env (transform1 [] 0) (ctx1 Write []) TypeBytes (BytesValue (Some [1, 2, 3]))
        (world0, [])
       = (Return (BytesValue (Some [32, 7, 7, 7, 3, 2, 1])),
          (world1, trace1 @ [EvGetDekKeyMaterialBytes, EvPrimitive, EvEncrypt]))"
proof -
  have fits: "unat (1 :: 64 word) < 2 ^ 32" by simp
  have mode: "RuleMode (ctx1 Write []) = Write" by (simp add: ctx1_def)
  have tb: "toBytes TypeBytes (BytesValue (Some [1, 2, 3])) = Return (Some [1, 2, 3])"
    by (simp add: toBytes_def)
  show ?thesis
    using rotation_framing [OF fits, where magic = 0 and c = "[32, 7, 7, 7, 3, 2, 1]"
            and ctx = "ctx1 Write []" and env = fake_env and f = "transform1 [] 0"
            and fieldType = TypeBytes and fieldValue = "BytesValue (Some [1, 2, 3])"
            and s = "(world0, [])" and dek = dek1 and ?s1.0 = "(world1, trace1)"
            and k = "Some [32, 7, 7, 7]"
            and ?s2.0 = "(world1, trace1 @ [EvGetDekKeyMaterialBytes])"
            and plaintext = "[1, 2, 3]"
            and ?s3.0 = "(world1, trace1 @ [EvGetDekKeyMaterialBytes, EvPrimitive, EvEncrypt])"]
          fits mode tb run_write_dek run_key [of world1 trace1]
          run_encrypt [of "[1, 2, 3]" world1 "trace1 @ [EvGetDekKeyMaterialBytes]"]
    by (simp add: run_not_rotated)
qed

subsection \<open>Read mode never creates key material\<close>

text \<open>
  C7. In read mode, when the lookup of the KEK, or of the DEK (by version, or the latest
  when the requested version is 0), is answered with a 404-class REST error,
  \<open>getOrCreateKek\<close> and \<open>getOrCreateDek\<close> end in an error; the only calls they have made
  are that lookup and, for the DEK, the clock: no registration call is in the trace.
\<close>

theorem read_mode_absent_fails:
  assumes "RuleMode ctx = Read"
  shows "(GetKek env (KekName f) True (fst s) = (Inl err, w') \<and> restErrorHasPrefix err ''404''
           \<longrightarrow> getOrCreateKek env f ctx s
                 = (Error (NoKekFoundConsume (KekName f)),
                    (w', snd s @ [EvGetKek (KekName f) True]))
               \<and> filter is_register (snd s @ [EvGetKek (KekName f) True])
                 = filter is_register (snd s))
       \<and> (version \<noteq> Some 0
          \<and> GetDekVersion env (KekName f) (Subject ctx) (case version of None \<Rightarrow> 1 | Some v \<Rightarrow> v)
               (DekFormat (Cryptor f)) True (fst s) = (Inl err, w')
          \<and> restErrorHasPrefix err ''404''
           \<longrightarrow> getOrCreateDek env f ctx version s
                 = (Error (NoDekFoundConsume (KekName f)),
                    (snd (NowUnixMilli env w'),
                     snd s @ [EvGetDekVersion (KekName f) (Subject ctx)
                                (case version of None \<Rightarrow> 1 | Some v \<Rightarrow> v)
                                (DekFormat (Cryptor f)) True, EvNowUnixMilli]))
               \<and> filter is_register
                    (snd s @ [EvGetDekVersion (KekName f) (Subject ctx)
                                (case version of None \<Rightarrow> 1 | Some v \<Rightarrow> v)
                                (DekFormat (Cryptor f)) True, EvNowUnixMilli])
                 = filter is_register (snd s))
       \<and> (version = Some 0
          \<and> GetDek env (KekName f) (Subject ctx) (DekFormat (Cryptor f)) True (fst s) = (Inl err, w')
          \<and> restErrorHasPrefix err ''404''
           \<longrightarrow> getOrCreateDek env f ctx version s
                 = (Error (NoDekFoundConsume (KekName f)),
                    (snd (NowUnixMilli env w'),
                     snd s @ [EvGetDek (KekName f) (Subject ctx) (DekFormat (Cryptor f)) True,
                              EvNowUnixMilli]))
               \<and> filter is_register
                    (snd s @ [EvGetDek (KekName f) (Subject ctx) (DekFormat (Cryptor f)) True,
                              EvNowUnixMilli])
                 = filter is_register (snd s))"
  using assms
  by (auto simp add: getOrCreateKek_def retrieveKekFromRegistry_def getOrCreateDek_def
        retrieveDekFromRegistry_def isExpired_def call_def Let_def
        split: prod.splits option.splits)

theorem read_mode_absent_fails_witness:
  "RuleMode (ctx1 Read []) = Read
   \<and> GetKek fake_env (KekName (transform1 [] 0)) True (fst (world0, []))
       = (Inl (RestError 40470), world0)
   \<and> restErrorHasPrefix (RestError 40470) ''404''
   \<and> getOrCreateKek fake_env (transform1 [] 0) (ctx1 Read []) (world0, [])
       = (Error (NoKekFoundConsume ''kek1''), (world0, [EvGetKek ''kek1'' True]))
   \<and> GetDekVersion fake_env (KekName (transform1 [] 0)) (Subject (ctx1 Read [])) 1
        (DekFormat (Cryptor (transform1 [] 0))) True (fst (world0, []))
       = (Inl (RestError 40470), world0)
   \<and> getOrCreateDek fake_env (transform1 [] 0) (ctx1 Read []) None (world0, [])
       = (Error (NoDekFoundConsume ''kek1''),
          (world0, [EvGetDekVersion ''kek1'' ''topic-value'' 1 ''AES256_GCM'' True,
                    EvNowUnixMilli]))"
proof -
  have mode: "RuleMode (ctx1 Read []) = Read" by (simp add: ctx1_def)
  have k: "GetKek fake_env (KekName (transform1 [] 0)) True (fst (world0, []))
             = (Inl (RestError 40470), world0)"
    by (simp add: fake_env_sel fakeGetKek_def world0_def)
  have d: "GetDekVersion fake_env (KekName (transform1 [] 0)) (Subject (ctx1 Read [])) 1
        (DekFormat (Cryptor (transform1 [] 0))) True (fst (world0, []))
       = (Inl (RestError 40470), world0)"
    by (simp add: fake_env_sel fakeGetDekVersion_def world0_def)
  show ?thesis
    using read_mode_absent_fails [OF mode, where env = fake_env and f = "transform1 [] 0"
            and s = "(world0, [])" and err = "RestError 40470" and w' = world0
            and version = None]
          mode k d restErrorHasPrefix_40470
    by (simp add: transform1_def ctx1_def getCryptor_def const_defs fake_env_sel)
qed

subsection \<open>A KEK that does not match the rule\<close>

lemma compare_mismatch:
  "\<not> kekMatchesRule ctx kek \<Longrightarrow>
   \<exists>e. getOrCreateKek_compare f (GetParameter ctx EncryptKmsType)
          (GetParameter ctx EncryptKmsKeyID) kek = Error e"
  by (auto simp add: kekMatchesRule_def getOrCreateKek_compare_def split: option.splits)

lemma compare_Return:
  "getOrCreateKek_compare f kt kk kek = Return k
   \<Longrightarrow> k = kek \<and> (case kt of None \<Rightarrow> True | Some t \<Rightarrow> t = [] \<or> t = KmsType kek)
        \<and> (case kk of None \<Rightarrow> True | Some i \<Rightarrow> i = [] \<or> i = KmsKeyID kek)"
  by (auto simp add: getOrCreateKek_compare_def split: option.splits if_splits)

lemma retrieveKek_trace:
  "retrieveKekFromRegistry env key s = (r, s') \<Longrightarrow> filter is_kms (snd s') = filter is_kms (snd s)"
  by (auto simp add: retrieveKekFromRegistry_def call_def split: prod.splits sum.splits if_splits)

lemma storeKek_trace:
  "storeKekToRegistry env key t k sh s = (r, s') \<Longrightarrow> filter is_kms (snd s') = filter is_kms (snd s)"
  by (auto simp add: storeKekToRegistry_def call_def split: prod.splits sum.splits if_splits)

lemma getOrCreateKek_no_kms:
  assumes "getOrCreateKek env f ctx s = (r, s')"
  shows "filter is_kms (snd s') = filter is_kms (snd s)"
  using assms
  apply (simp add: getOrCreateKek_def Let_def split: prod.splits option.splits if_splits)
  apply (auto dest!: retrieveKek_trace storeKek_trace)
  done

lemma getOrCreateKek_Return_matches:
  assumes "getOrCreateKek env f ctx s = (Return kek, s')"
  shows "kekMatchesRule ctx kek"
  using assms
  apply (simp add: getOrCreateKek_def Let_def split: prod.splits option.splits if_splits)
  apply (auto dest!: compare_Return simp add: kekMatchesRule_def)
  done

text \<open>
  C8. If the rule supplies a non-empty KMS type, or a non-empty KMS key ID, that differs
  from that of a KEK, then \<open>getOrCreateKek\<close> never returns that KEK; when the registry
  lookup resolves to it (the KEK is already registered) \<open>getOrCreateKek\<close> ends in an error
  having made that one lookup call only; and whatever it ends with, no call to a KMS is
  added to the trace.
\<close>

theorem kek_mismatch_fails_without_kms:
  assumes "(\<exists>t. GetParameter ctx EncryptKmsType = Some t \<and> t \<noteq> [] \<and> t \<noteq> KmsType kek)
         \<or> (\<exists>i. GetParameter ctx EncryptKmsKeyID = Some i \<and> i \<noteq> [] \<and> i \<noteq> KmsKeyID kek)"
  shows "(GetKek env (KekName f) (RuleMode ctx = Read) (fst s) = (Inr kek, w')
          \<longrightarrow> (\<exists>e. getOrCreateKek env f ctx s
                     = (Error e, (w', snd s @ [EvGetKek (KekName f) (RuleMode ctx = Read)]))))
       \<and> getOrCreateKek env f ctx s \<noteq> (Return kek, s')
       \<and> filter is_kms (snd (snd (getOrCreateKek env f ctx s))) = filter is_kms (snd s)"
proof (intro conjI impI)
  have nm: "\<not> kekMatchesRule ctx kek"
    using assms by (auto simp add: kekMatchesRule_def)
  {
    assume g: "GetKek env (KekName f) (RuleMode ctx = Read) (fst s) = (Inr kek, w')"
    from compare_mismatch [OF nm, of f] obtain e where
      "getOrCreateKek_compare f (GetParameter ctx EncryptKmsType)
            (GetParameter ctx EncryptKmsKeyID) kek = Error e" ..
    with g show "\<exists>e. getOrCreateKek env f ctx s
                       = (Error e, (w', snd s @ [EvGetKek (KekName f) (RuleMode ctx = Read)]))"
      by (simp add: getOrCreateKek_def retrieveKekFromRegistry_def call_def Let_def)
  }
  show "getOrCreateKek env f ctx s \<noteq> (Return kek, s')"
    using getOrCreateKek_Return_matches [of env f ctx s kek s'] nm by blast
  show "filter is_kms (snd (snd (getOrCreateKek env f ctx s))) = filter is_kms (snd s)"
    using getOrCreateKek_no_kms [of env f ctx s "fst (getOrCreateKek env f ctx s)"
            "snd (getOrCreateKek env f ctx s)"] by simp
qed

theorem kek_mismatch_fails_without_kms_witness:
  "GetParameter (ctx1 Write [(EncryptKmsType, ''other'')]) EncryptKmsType = Some ''other''
   \<and> ''other'' \<noteq> [] \<and> ''other'' \<noteq> KmsType kek1
   \<and> GetKek fake_env (KekName (transform1 [] 0))
        (RuleMode (ctx1 Write [(EncryptKmsType, ''other'')]) = Read)
        (fst (world0\<lparr>w_keks := [kek1]\<rparr>, []))
       = (Inr kek1, world0\<lparr>w_keks := [kek1]\<rparr>)
   \<and> (\<exists>e. getOrCreateKek fake_env (transform1 [] 0) (ctx1 Write [(EncryptKmsType, ''other'')])
             (world0\<lparr>w_keks := [kek1]\<rparr>, [])
           = (Error e, (world0\<lparr>w_keks := [kek1]\<rparr>, [EvGetKek ''kek1'' False])))"
proof -
  have p: "GetParameter (ctx1 Write [(EncryptKmsType, ''other'')]) EncryptKmsType = Some ''other''"
    by (simp add: ctx1_def)
  have n: "''other'' \<noteq> KmsType kek1" by (simp add: kek1_def)
  have g: "GetKek fake_env (KekName (transform1 [] 0))
        (RuleMode (ctx1 Write [(EncryptKmsType, ''other'')]) = Read)
        (fst (world0\<lparr>w_keks := [kek1]\<rparr>, []))
       = (Inr kek1, world0\<lparr>w_keks := [kek1]\<rparr>)"
    by (simp add: fake_env_sel fakeGetKek_def transform1_def ctx1_def kek1_def)
  have h: "(\<exists>t. GetParameter (ctx1 Write [(EncryptKmsType, ''other'')]) EncryptKmsType = Some t
              \<and> t \<noteq> [] \<and> t \<noteq> KmsType kek1)
         \<or> (\<exists>i. GetParameter (ctx1 Write [(EncryptKmsType, ''other'')]) EncryptKmsKeyID = Some i
              \<and> i \<noteq> [] \<and> i \<noteq> KmsKeyID kek1)"
    using p n by simp
  show ?thesis
    using kek_mismatch_fails_without_kms [OF h, where env = fake_env and f = "transform1 [] 0"
            and s = "(world0\<lparr>w_keks := [kek1]\<rparr>, [])" and w' = "world0\<lparr>w_keks := [kek1]\<rparr>"]
          p n g
    by (simp add: transform1_def ctx1_def)
qed

subsection \<open>A failed KEK registration\<close>

text \<open>
  C3. In write mode with no KEK registered, when the registration is answered with the
  REST error code 50001 (not a conflict), \<open>getOrCreateKek\<close> still looks the KEK up a
  second time, and returns the outcome of that lookup ("no kek found ... during
  produce") instead of the registration's error.
\<close>

theorem kek_registration_error_is_dropped:
  "getOrCreateKek fake_env (transform1 [] 0)
     (ctx1 Write [(EncryptKmsType, ''fake''), (EncryptKmsKeyID, ''id1'')])
     (world0\<lparr>w_registerKekError := Some (RestError 50001)\<rparr>, [])
   = (Error (NoKekFoundProduce ''kek1''),
      (world0\<lparr>w_registerKekError := Some (RestError 50001)\<rparr>,
       [EvGetKek ''kek1'' False, EvRegisterKek ''kek1'' ''fake'' ''id1'' False,
        EvGetKek ''kek1'' False]))"
  by (simp add: model_defs fake_env_sel fake_defs const_defs rest_codes)

subsection \<open>Round trip\<close>

lemma Transform_nil_slice_write:
  "RuleMode ctx = Write \<Longrightarrow>
   Transform env f ctx TypeBytes (BytesValue None) s = (Error (TypeNotSupported TypeBytes), s)"
  by (simp add: Transform_def toBytes_def)

text \<open>
  C1. A bytes field whose value is the nil slice is not the nil field value (the
  interface holds a slice), yet the write transform does not encrypt it: it returns the
  "type not supported for encryption" error, so there is nothing to read back, while the
  read transform passes the same value through unchanged.
\<close>

theorem Transform_nil_slice_write_fails:
  "BytesValue None \<noteq> NilValue
   \<and> Transform fake_env (transform1 [] 0) (ctx1 Write []) TypeBytes (BytesValue None) (world0, [])
       = (Error (TypeNotSupported TypeBytes), (world0, []))
   \<and> Transform fake_env (transform1 [] 0) (ctx1 Read []) TypeBytes (BytesValue None) (world0, [])
       = (Return (BytesValue None), (world0, []))"
  by (simp add: Transform_def toBytes_def ctx1_def)

text \<open>
  For the other values (a string, or a byte slice that is not nil) the round trip holds.
  First in general: if the write transform returns \<open>out\<close>, Tink decrypts what it encrypted
  and base64 decodes what it encoded, and on the read side the registry answers the
  lookup (of the version in the frame when rotation is enabled, of version 1 otherwise)
  with a DEK whose key material is the writer's, then the read transform of \<open>out\<close>
  returns the original string, or a byte slice with the original bytes. \<open>dekW\<close> and
  \<open>kW\<close> name the DEK and the key material of the write; a write that returns has them
  (\<open>Transform_Write_obtains_dek\<close>).
\<close>

lemma Transform_Write_encrypts:
  assumes "RuleMode ctx = Write"
    and "toBytes fieldType fieldValue = Return (Some plaintext)"
    and "getOrCreateDek env f ctx (if isDekRotated f then Some (- 1) else None) s = (Return dek, s1)"
    and "call EvGetDekKeyMaterialBytes (GetDekKeyMaterialBytes env dek) s1 = (Inr k, s2)"
    and "Transform env f ctx fieldType fieldValue s = (Return out, s')"
  shows "\<exists>c. encrypt env (Cryptor f) (slice_elems k) plaintext [] s2 = (Return c, s')"
  using assms toBytes_not_nil [OF assms(2)]
  by (cases "encrypt env (Cryptor f) (slice_elems k) plaintext [] s2")
     (auto simp add: Transform_def prefixVersion_def split: outcome.splits if_splits)

lemma Transform_Write_obtains_dek:
  assumes "RuleMode ctx = Write"
    and "Transform env f ctx fieldType fieldValue s = (Return out, s')"
    and "fieldValue \<noteq> NilValue"
  shows "\<exists>dek s1 k s2.
           getOrCreateDek env f ctx (if isDekRotated f then Some (- 1) else None) s
             = (Return dek, s1)
           \<and> call EvGetDekKeyMaterialBytes (GetDekKeyMaterialBytes env dek) s1 = (Inr k, s2)"
  using assms
  by (auto simp add: Transform_def split: outcome.splits option.splits prod.splits sum.splits
        if_splits)

lemma decrypt_encrypt:
  assumes enc: "encrypt env c k p [] s2 = (Return ct, s3)"
    and aead: "\<forall>h pt x w w'. Encrypt env h pt [] w = (Inr x, w')
                 \<longrightarrow> (\<exists>q. Decrypt env h x [] = Inr q \<and> slice_elems q = pt)"
    and daead: "\<forall>h pt x. EncryptDeterministically env h pt [] = Inr x
                  \<longrightarrow> (\<exists>q. DecryptDeterministically env h x [] = Inr q \<and> slice_elems q = pt)"
  shows "\<exists>q t'. decrypt env c k ct [] t = (Return q, t') \<and> slice_elems q = p"
proof -
  have A: "\<And>h pt x w w'. Encrypt env h pt [] w = (Inr x, w')
             \<Longrightarrow> \<exists>q. Decrypt env h x [] = Inr q \<and> slice_elems q = pt"
    using aead by blast
  have D: "\<And>h pt x. EncryptDeterministically env h pt [] = Inr x
              \<Longrightarrow> \<exists>q. DecryptDeterministically env h x [] = Inr q \<and> slice_elems q = pt"
    using daead by blast
  show ?thesis
    using enc
    by (auto simp add: encrypt_def decrypt_def call_def call_pure_def
          split: option.splits sum.splits primitive.splits if_splits prod.splits
          dest!: A D)
qed

lemma Transform_Read_result:
  assumes "RuleMode ctx = Read"
    and b64: "\<forall>x. DecodeString env (EncodeToString env x) = Inr x"
    and "getOrCreateDek env f ctx (if isDekRotated f then Some (ucast v32) else None) t
           = (Return dek, t1)"
    and "call EvGetDekKeyMaterialBytes (GetDekKeyMaterialBytes env dek) t1 = (Inr k, t2)"
    and "decrypt env (Cryptor f) (slice_elems k) c [] t2 = (Return q, t3)"
    and "framed = (if isDekRotated f then MagicByteV0 env # PutUint32 v32 @ c else c)"
  shows "Transform env f ctx TypeBytes (BytesValue (Some framed)) t
           = (Return (BytesValue q), t3)"
    and "Transform env f ctx TypeString (StringValue (EncodeToString env framed)) t
           = (Return (StringValue (string_of_bytes (slice_elems q))), t3)"
proof -
  show "Transform env f ctx TypeBytes (BytesValue (Some framed)) t
           = (Return (BytesValue q), t3)"
    using assms
    by (cases "isDekRotated f")
       (simp_all add: Transform_def toBytes_def toObject_def extractVersion_frame
          length_PutUint32)
  show "Transform env f ctx TypeString (StringValue (EncodeToString env framed)) t
           = (Return (StringValue (string_of_bytes (slice_elems q))), t3)"
    using assms
    by (cases "isDekRotated f")
       (simp_all add: Transform_def toBytes_def toObject_def extractVersion_frame
          length_PutUint32 string_of_bytes_of_string)
qed

lemma getOrCreateDek_Read_registry:
  assumes "RuleMode ctx = Read"
    and "ver = (case version of None \<Rightarrow> 1 | Some v \<Rightarrow> v)"
    and "(if ver \<noteq> 0
          then GetDekVersion env (KekName f) (Subject ctx) ver (DekFormat (Cryptor f)) True
          else GetDek env (KekName f) (Subject ctx) (DekFormat (Cryptor f)) True) (fst t)
         = (Inr dek, w1)"
    and "GetDekKeyMaterialBytes env dek (snd (NowUnixMilli env w1)) = (Inr (Some k), w2)"
  shows "getOrCreateDek env f ctx version t
         = (Return dek,
            (w2, snd t @ [if ver \<noteq> 0
                          then EvGetDekVersion (KekName f) (Subject ctx) ver
                                 (DekFormat (Cryptor f)) True
                          else EvGetDek (KekName f) (Subject ctx) (DekFormat (Cryptor f)) True,
                          EvNowUnixMilli, EvGetDekKeyMaterialBytes]))"
  using assms
  by (cases "ver \<noteq> 0")
     (auto simp add: getOrCreateDek_def retrieveDekFromRegistry_def isExpired_def
        getOrCreateDek_material_def call_def Let_def split: prod.splits)

lemma Transform_round_trip:
  assumes val: "(fieldType = TypeBytes \<and> fieldValue = BytesValue (Some b))
              \<or> (fieldType = TypeString \<and> fieldValue = StringValue str)"
    and modeW: "RuleMode ctxW = Write" and modeR: "RuleMode ctxR = Read"
    and b64: "\<forall>x. DecodeString env (EncodeToString env x) = Inr x"
    and aead: "\<forall>h pt x w w'. Encrypt env h pt [] w = (Inr x, w')
                 \<longrightarrow> (\<exists>q. Decrypt env h x [] = Inr q \<and> slice_elems q = pt)"
    and daead: "\<forall>h pt x. EncryptDeterministically env h pt [] = Inr x
                  \<longrightarrow> (\<exists>q. DecryptDeterministically env h x [] = Inr q \<and> slice_elems q = pt)"
    and wr: "Transform env f ctxW fieldType fieldValue s = (Return out, s')"
    and dekW: "getOrCreateDek env f ctxW (if isDekRotated f then Some (- 1) else None) s
                 = (Return dekW, s1)"
    and keyW: "call EvGetDekKeyMaterialBytes (GetDekKeyMaterialBytes env dekW) s1 = (Inr kW, s2)"
    and ver: "ver = (if isDekRotated f then ucast (ucast (Dek.Version dekW) :: 32 word) else 1)"
    and lookup: "(if ver \<noteq> 0
          then GetDekVersion env (KekName f) (Subject ctxR) ver (DekFormat (Cryptor f)) True
          else GetDek env (KekName f) (Subject ctxR) (DekFormat (Cryptor f)) True) (fst t)
         = (Inr dekR, w1)"
    and key1: "GetDekKeyMaterialBytes env dekR (snd (NowUnixMilli env w1)) = (Inr (Some k1), w2)"
    and key2: "GetDekKeyMaterialBytes env dekR w2 = (Inr kR, w3)"
    and same: "slice_elems kR = slice_elems kW"
  shows "\<exists>v' t'. Transform env f ctxR fieldType out t = (Return v', t')
           \<and> (fieldType = TypeString \<longrightarrow> v' = fieldValue)
           \<and> (fieldType = TypeBytes \<longrightarrow> (\<exists>q. v' = BytesValue q \<and> slice_elems q = b))"
proof -
  define plaintext where "plaintext = (if fieldType = TypeBytes then b else bytes_of_string str)"
  define version where
    "version = (if isDekRotated f then Some (ucast (ucast (Dek.Version dekW) :: 32 word) :: go_int)
                else None)"
  have v: "ver = (case version of None \<Rightarrow> 1 | Some v \<Rightarrow> v)"
    by (simp add: ver version_def)
  have tb: "toBytes fieldType fieldValue = Return (Some plaintext)"
    using val by (auto simp add: toBytes_def plaintext_def)
  from Transform_Write_encrypts [OF modeW tb dekW keyW wr] obtain c where
    enc: "encrypt env (Cryptor f) (slice_elems kW) plaintext [] s2 = (Return c, s')" ..
  define framed where
    "framed = (if isDekRotated f
               then MagicByteV0 env # PutUint32 (ucast (Dek.Version dekW)) @ c else c)"
  have out: "out = (if fieldType = TypeString then StringValue (EncodeToString env framed)
                    else BytesValue (Some framed))"
    using Transform_Write_result [OF modeW tb dekW keyW enc] wr
    by (simp add: framed_def Let_def)
  note dekR = getOrCreateDek_Read_registry [OF modeR v lookup key1]
  define t1 where "t1 = (w2, snd t @ [if ver \<noteq> 0
                          then EvGetDekVersion (KekName f) (Subject ctxR) ver
                                 (DekFormat (Cryptor f)) True
                          else EvGetDek (KekName f) (Subject ctxR) (DekFormat (Cryptor f)) True,
                          EvNowUnixMilli, EvGetDekKeyMaterialBytes])"
  have dekR': "getOrCreateDek env f ctxR
                 (if isDekRotated f then Some (ucast (ucast (Dek.Version dekW) :: 32 word))
                  else None) t = (Return dekR, t1)"
    using dekR by (simp add: version_def t1_def)
  have keyR: "call EvGetDekKeyMaterialBytes (GetDekKeyMaterialBytes env dekR) t1
                = (Inr kR, (w3, snd t1 @ [EvGetDekKeyMaterialBytes]))"
    using key2 by (simp add: call_def t1_def)
  from decrypt_encrypt [OF enc aead daead, of "(w3, snd t1 @ [EvGetDekKeyMaterialBytes])"]
  obtain q t3 where
    dec: "decrypt env (Cryptor f) (slice_elems kR) c []
            (w3, snd t1 @ [EvGetDekKeyMaterialBytes]) = (Return q, t3)"
    and q: "slice_elems q = plaintext"
    using same by auto
  note rd = Transform_Read_result [OF modeR b64 dekR' keyR dec framed_def]
  from val show ?thesis
  proof
    assume "fieldType = TypeBytes \<and> fieldValue = BytesValue (Some b)"
    then show ?thesis using rd(1) out q by (auto simp add: plaintext_def)
  next
    assume "fieldType = TypeString \<and> fieldValue = StringValue str"
    then show ?thesis using rd(2) out q
      by (auto simp add: plaintext_def string_of_bytes_of_string)
  qed
qed

text \<open>
  Then on the in-memory collaborators, where the reader unwraps the key material through
  the KMS: the default algorithm without rotation on a string, the deterministic cipher
  with rotation on bytes, and AES128_GCM with rotation on a string. Each read starts in
  the world its write left.
\<close>

lemmas run_defs = model_defs fake_env_sel fake_defs const_defs rest_codes char_defs
  word_sless_alt

lemma run_round_trip_rotated_siv_bytes:
  "fst (Transform fake_env (transform1 paramsSiv 2) (ctx1 Write paramsSiv) TypeBytes
          (BytesValue (Some [1, 2, 3])) (world0, []))
     = Return (BytesValue (Some [0, 0, 0, 0, 1, 64, 7, 7, 7, 3, 2, 1]))
   \<and> fst (Transform fake_env (transform1 paramsSiv 2) (ctx1 Read paramsSiv) TypeBytes
          (BytesValue (Some [0, 0, 0, 0, 1, 64, 7, 7, 7, 3, 2, 1]))
          (fst (snd (Transform fake_env (transform1 paramsSiv 2) (ctx1 Write paramsSiv) TypeBytes
             (BytesValue (Some [1, 2, 3])) (world0, []))), []))
     = Return (BytesValue (Some [1, 2, 3]))"
  by (simp add: run_defs paramsSiv_def)

lemma run_round_trip_default_string:
  "fst (Transform fake_env (transform1 [] 0) (ctx1 Write []) TypeString (StringValue ''hello'')
          (world0, []))
     = Return (StringValue (string_of_bytes ([32, 7, 7, 7] @ rev (bytes_of_string ''hello''))))
   \<and> fst (Transform fake_env (transform1 [] 0) (ctx1 Read []) TypeString
          (StringValue (string_of_bytes ([32, 7, 7, 7] @ rev (bytes_of_string ''hello''))))
          (fst (snd (Transform fake_env (transform1 [] 0) (ctx1 Write []) TypeString
                       (StringValue ''hello'') (world0, []))), []))
     = Return (StringValue ''hello'')"
  by (simp add: run_defs)

lemma run_round_trip_rotated_aes128_string:
  "fst (Transform fake_env (transform1 [(EncryptDekAlgorithm, Aes128Gcm)] 1)
          (ctx1 Write [(EncryptDekAlgorithm, Aes128Gcm)]) TypeString (StringValue ''hello'')
          (world0, []))
     = Return (StringValue (string_of_bytes
                 ([0, 0, 0, 0, 1, 16, 7, 7, 7] @ rev (bytes_of_string ''hello''))))
   \<and> fst (Transform fake_env (transform1 [(EncryptDekAlgorithm, Aes128Gcm)] 1)
          (ctx1 Read [(EncryptDekAlgorithm, Aes128Gcm)]) TypeString
          (StringValue (string_of_bytes
                 ([0, 0, 0, 0, 1, 16, 7, 7, 7] @ rev (bytes_of_string ''hello''))))
          (fst (snd (Transform fake_env (transform1 [(EncryptDekAlgorithm, Aes128Gcm)] 1)
                       (ctx1 Write [(EncryptDekAlgorithm, Aes128Gcm)]) TypeString
                       (StringValue ''hello'') (world0, []))), []))
     = Return (StringValue ''hello'')"
  by (simp add: run_defs)

text \<open>An instance of the general statement, on a registry that holds the DEK with its key
  material, with rotation enabled.\<close>

lemma run_write_siv:
  "fst (getOrCreateDek fake_env (transform1 paramsSiv 2) (ctx1 Write paramsSiv) (Some (- 1))
          (world0, [])) = Return dekSiv"
  by (simp add: run_defs paramsSiv_def dekSiv_def)

lemma run_rotated_siv: "isDekRotated (transform1 paramsSiv 2)"
  by (simp add: isDekRotated_def transform1_def word_sless_alt)

lemma Transform_round_trip_instance:
  "\<exists>v' t'. Transform fake_env (transform1 paramsSiv 2) (ctx1 Read paramsSiv) TypeBytes
              (BytesValue (Some [0, 0, 0, 0, 1, 64, 7, 7, 7, 3, 2, 1])) (worldSiv, [])
            = (Return v', t')
          \<and> (\<exists>q. v' = BytesValue q \<and> slice_elems q = [1, 2, 3])"
proof -
  let ?f = "transform1 paramsSiv 2" and ?cw = "ctx1 Write paramsSiv" and ?cr = "ctx1 Read paramsSiv"
  let ?W = "Transform fake_env ?f ?cw TypeBytes (BytesValue (Some [1, 2, 3])) (world0, [])"
  let ?D = "getOrCreateDek fake_env ?f ?cw (Some (- 1)) (world0, [])"
  have modeW: "RuleMode ?cw = Write" and modeR: "RuleMode ?cr = Read"
    by (simp_all add: ctx1_def)
  have wr: "?W = (Return (BytesValue (Some [0, 0, 0, 0, 1, 64, 7, 7, 7, 3, 2, 1])), snd ?W)"
    using run_round_trip_rotated_siv_bytes by (simp add: prod_eq_iff)
  have dekW: "getOrCreateDek fake_env ?f ?cw (if isDekRotated ?f then Some (- 1) else None)
                (world0, []) = (Return dekSiv, snd ?D)"
    using run_write_siv run_rotated_siv by (simp add: prod_eq_iff)
  have keyW: "call EvGetDekKeyMaterialBytes (GetDekKeyMaterialBytes fake_env dekSiv) (snd ?D)
                = (Inr (Some [64, 7, 7, 7]), (fst (snd ?D), snd (snd ?D) @ [EvGetDekKeyMaterialBytes]))"
    by (simp add: call_def fake_env_sel dekSiv_def)
  have ver: "(1 :: go_int) = (if isDekRotated ?f
                then ucast (ucast (Dek.Version dekSiv) :: 32 word) else 1)"
    by (simp add: dekSiv_def)
  have lookup: "(if (1 :: go_int) \<noteq> 0
          then GetDekVersion fake_env (KekName ?f) (Subject ?cr) 1 (DekFormat (Cryptor ?f)) True
          else GetDek fake_env (KekName ?f) (Subject ?cr) (DekFormat (Cryptor ?f)) True)
            (fst (worldSiv, []))
         = (Inr dekSiv, worldSiv)"
    by (simp add: fake_env_sel fakeGetDekVersion_def worldSiv_def world0_def transform1_def
          ctx1_def getCryptor_def paramsSiv_def const_defs dekSiv_def)
  have key1: "GetDekKeyMaterialBytes fake_env dekSiv (snd (NowUnixMilli fake_env worldSiv))
                = (Inr (Some [64, 7, 7, 7]), worldSiv)"
    by (simp add: fake_env_sel dekSiv_def)
  have key2: "GetDekKeyMaterialBytes fake_env dekSiv worldSiv
                = (Inr (Some [64, 7, 7, 7]), worldSiv)"
    by (simp add: fake_env_sel dekSiv_def)
  have "\<exists>v' t'. Transform fake_env ?f ?cr TypeBytes
              (BytesValue (Some [0, 0, 0, 0, 1, 64, 7, 7, 7, 3, 2, 1])) (worldSiv, [])
            = (Return v', t')
          \<and> (TypeBytes = TypeString \<longrightarrow> v' = BytesValue (Some [1, 2, 3]))
          \<and> (TypeBytes = TypeBytes \<longrightarrow> (\<exists>q. v' = BytesValue q \<and> slice_elems q = [1, 2, 3]))"
    by (rule Transform_round_trip [OF _ modeW modeR fake_codec fake_aead fake_daead wr dekW keyW
               ver lookup key1 key2, where str = "[]"]) simp_all
  then show ?thesis by auto
qed

end
